theory Spec2Isabelle
  imports Complex_Main "HOL-Library.Word" "HOL-Library.Signed_Division"
begin

unbundle bit_operations_syntax

section \<open>Go values\<close>

text \<open>
  Bytes and fixed-width integers are words. Go's \<open>int\<close> (used for lengths, indices, rates and
  counts) is \<open>int\<close>; where a product of two configured values could leave 64 bits the
  wrap-around is written out with \<open>wrap64\<close>. Go's integer \<open>/\<close> and \<open>%\<close> truncate towards zero:
  \<open>sdiv\<close> and \<open>smod\<close>.
\<close>

type_synonym byte = "8 word"
type_synonym int16 = "16 word"
type_synonym int64 = "64 word"
type_synonym uint64 = "64 word"

definition wrap64 :: "int \<Rightarrow> int" where
  "wrap64 i = (i + 2 ^ 63) mod 2 ^ 64 - 2 ^ 63"

text \<open>\<open>strconv.Itoa\<close>: the decimal digits of an integer.\<close>

function digits10 :: "nat \<Rightarrow> string" where
  "digits10 n =
     (if n < 10 then [''0123456789'' ! n] else digits10 (n div 10) @ [''0123456789'' ! (n mod 10)])"
  by pat_completeness auto
termination
  by (relation "measure id") auto

definition Itoa :: "int \<Rightarrow> string" where
  "Itoa i = (if i < 0 then CHR ''-'' # digits10 (nat (- i)) else digits10 (nat i))"

text \<open>Every error value and every run-time panic of the modelled code is a constructor.
  Errors of libraries carry the library's message where it reaches the device.\<close>

datatype error =
    EmptyPcm
  | InvalidPcmMod int
  | AtLeast4Samples int
  | ChannelLengthMismatch int int
  | InvalidXi | InvalidYi | InvalidXo | InvalidYo
  | InvalidChannels int
  | InvalidSampleRate int
  | InvalidNSampleRate int
  | EmptyOpusData
  | OpusDecodeFailed string
  | UpResamplerFailed error
  | Base64DecodeFailed
  | InvalidAudioParams
  | InvalidRealtimeClientEvent
  | InvalidEventFormat
  | WriteQueueClosed
  | TooLongWithoutOperation
  | ConnectionWriteFailed string
  | UnknownServerEventType string
  | JsonSyntaxError
  | JsonUnmarshalTypeError

datatype panic =
    IndexOutOfRange
  | SliceBoundsOutOfRange
  | IntegerDivideByZero
  | NilPointerDereference
  | InterfaceConversion
  | ConstructorPanic error
  | SendOnClosedChannel

text \<open>\<open>err.Error()\<close> for the errors the repository creates; the text of a JSON or base64
  library error never leaves the gateway and is not modelled.\<close>

fun ErrorText :: "error \<Rightarrow> string" where
  "ErrorText EmptyPcm = ''empty pcm''"
| "ErrorText (InvalidPcmMod n) = ''invalid pcm, should mod('' @ Itoa n @ '')''"
| "ErrorText (AtLeast4Samples n) = ''invalid pcm, atleast 4samples, actual '' @ Itoa n @ ''samples''"
| "ErrorText (ChannelLengthMismatch l r) = ''invalid pcm, L'' @ Itoa l @ ''!='' @ Itoa r"
| "ErrorText InvalidXi = ''invalid xi''"
| "ErrorText InvalidYi = ''invalid yi''"
| "ErrorText InvalidXo = ''invalid xo''"
| "ErrorText InvalidYo = ''invalid yo''"
| "ErrorText (InvalidChannels n) = ''invalid channels='' @ Itoa n"
| "ErrorText (InvalidSampleRate n) = ''invalid sampleRate='' @ Itoa n"
| "ErrorText (InvalidNSampleRate n) = ''invalid nSampleRate='' @ Itoa n"
| "ErrorText EmptyOpusData = ''empty opus data''"
| "ErrorText (OpusDecodeFailed msg) = ''opus decode failed, err: '' @ msg"
| "ErrorText (UpResamplerFailed e) = ''upReSampler handle failed, err: '' @ ErrorText e"
| "ErrorText Base64DecodeFailed = ''base64 decode failed, err: ''"
| "ErrorText InvalidAudioParams = ''invalid audio params''"
| "ErrorText InvalidRealtimeClientEvent = ''invalid RealtimeClientEvent''"
| "ErrorText InvalidEventFormat = ''invalid event format''"
| "ErrorText WriteQueueClosed = ''write queue closed''"
| "ErrorText TooLongWithoutOperation = ''too long without operation''"
| "ErrorText (ConnectionWriteFailed msg) = msg"
| "ErrorText (UnknownServerEventType t) = ''unknown server event type: '' @ t"
| "ErrorText JsonSyntaxError = []"
| "ErrorText JsonUnmarshalTypeError = []"

text \<open>
  The outcome of a call: a normal return, a returned error, a panic, or no return at all
  (a loop that never ends).
\<close>

datatype 'a result = Ok 'a | Err error | Panic panic | Diverges

section \<open>Floating point\<close>

text \<open>
  The resampler computes sample positions in \<open>float64\<close>. The arithmetic is a parameter of the
  model: a record of the operations the code uses. The theorems about the resampler hold for
  every such record, the one about the cache for every record that obeys \<open>float64_laws\<close>;
  \<open>binary64\<close> below is the instance used to run examples.
\<close>

record 'f float64_ops =
  of_int64 :: "int \<Rightarrow> 'f"
  of_uint64 :: "uint64 \<Rightarrow> 'f"
  fadd :: "'f \<Rightarrow> 'f \<Rightarrow> 'f"
  fsub :: "'f \<Rightarrow> 'f \<Rightarrow> 'f"
  fmul :: "'f \<Rightarrow> 'f \<Rightarrow> 'f"
  fdiv :: "'f \<Rightarrow> 'f \<Rightarrow> 'f"
  flt :: "'f \<Rightarrow> 'f \<Rightarrow> bool"
  fle :: "'f \<Rightarrow> 'f \<Rightarrow> bool"
  to_uint64 :: "'f \<Rightarrow> uint64"
  to_int16 :: "'f \<Rightarrow> int16"

text \<open>
  \<open>binary64\<close>: rationals rounded to 53 significant bits, ties to even, after every operation
  (the exponent range is not bounded, so there is no overflow to infinity and no subnormal).
  Conversions to integers truncate towards zero and keep the low bits.
  \<open>rexp a\<close> is the binary exponent of a positive \<open>a\<close>, the \<open>k\<close> with \<open>2 ^ k \<le> a < 2 ^ (k + 1)\<close>,
  found by halving; below 1 it is read off the reciprocal.
\<close>

function rexp_up :: "rat \<Rightarrow> int" where
  "rexp_up a = (if a < 2 then 0 else 1 + rexp_up (a / 2))"
  by pat_completeness auto
termination
proof (relation "measure (\<lambda>a. nat \<lfloor>a\<rfloor>)")
  fix a :: rat
  assume "\<not> a < 2"
  then have a: "2 \<le> a" by simp
  have "a / 2 \<le> a - 1" using a by simp
  then have "\<lfloor>a / 2\<rfloor> \<le> \<lfloor>a - 1\<rfloor>" by (rule floor_mono)
  moreover have "2 \<le> \<lfloor>a\<rfloor>" using a by (simp add: le_floor_iff)
  ultimately show "(a / 2, a) \<in> measure (\<lambda>a. nat \<lfloor>a\<rfloor>)" by simp
qed simp

declare rexp_up.simps [simp del]

definition pow2 :: "int \<Rightarrow> rat" where
  "pow2 k = (if 0 \<le> k then 2 ^ nat k else 1 / 2 ^ nat (- k))"

definition round_even :: "rat \<Rightarrow> int" where
  "round_even q =
     (let f = \<lfloor>q\<rfloor>; d = q - of_int f
      in if d < 1 / 2 then f else if 1 / 2 < d then f + 1 else if even f then f else f + 1)"

definition rexp :: "rat \<Rightarrow> int" where
  "rexp a =
     (if 1 \<le> a then rexp_up a
      else let k = - rexp_up (1 / a) in if pow2 k \<le> a then k else k - 1)"

definition fl :: "rat \<Rightarrow> rat" where
  "fl q =
     (if q = 0 then 0
      else let a = \<bar>q\<bar>; e = rexp a - 52
           in sgn q * of_int (round_even (a / pow2 e)) * pow2 e)"

definition trunc0 :: "rat \<Rightarrow> int" where
  "trunc0 q = (if 0 \<le> q then \<lfloor>q\<rfloor> else - \<lfloor>- q\<rfloor>)"

definition binary64 :: "rat float64_ops" where
  "binary64 =
     \<lparr> of_int64 = (\<lambda>i. fl (of_int i)),
       of_uint64 = (\<lambda>w. fl (of_int (uint w))),
       fadd = (\<lambda>a b. fl (a + b)),
       fsub = (\<lambda>a b. fl (a - b)),
       fmul = (\<lambda>a b. fl (a * b)),
       fdiv = (\<lambda>a b. fl (a / b)),
       flt = (\<lambda>a b. a < b),
       fle = (\<lambda>a b. a \<le> b),
       to_uint64 = (\<lambda>a. word_of_int (trunc0 a)),
       to_int16 = (\<lambda>a. word_of_int (trunc0 a)) \<rparr>"

section \<open>Resampler\<close>

record goResampler =
  channels :: int
  isr :: int
  osr :: int
  lcache :: "int16 list"
  rcache :: "int16 list"
  lws :: uint64
  rws :: uint64
  lcs :: uint64
  rcs :: uint64

text \<open>A nil slice and an empty slice are both \<open>[]\<close>; where the code tests for nil the value
  is an option.\<close>

definition NewGoResampler :: "int \<Rightarrow> int \<Rightarrow> int \<Rightarrow> error + goResampler" where
  "NewGoResampler chans sampleRate nSampleRate =
     (if chans < 1 \<or> 2 < chans then Inl (InvalidChannels chans)
      else if sampleRate \<le> 0 then Inl (InvalidSampleRate sampleRate)
      else if nSampleRate \<le> 0 then Inl (InvalidNSampleRate nSampleRate)
      else Inr \<lparr> channels = chans, isr = sampleRate, osr = nSampleRate,
                 lcache = [], rcache = [], lws = 0, rws = 0, lcs = 0, rcs = 0 \<rparr>)"

subsection \<open>Spline\<close>

definition spline_lu :: "'f float64_ops \<Rightarrow> 'f list \<Rightarrow> 'f \<times> 'f \<times> 'f \<times> 'f \<times> 'f \<times> 'f \<times> 'f" where
  "spline_lu fp xi =
     (let x0 = xi ! 0; x1 = xi ! 1; x2 = xi ! 2; x3 = xi ! 3;
          h0 = fsub fp x1 x0; h1 = fsub fp x2 x1; h2 = fsub fp x3 x2;
          l1 = fdiv fp h0 (fadd fp h1 h0);
          u1 = fdiv fp h1 (fadd fp h1 h0);
          l2 = fdiv fp h1 (fadd fp h2 h1);
          u2 = fdiv fp h2 (fadd fp h2 h1)
      in (h0, h1, h2, l1, u1, l2, u2))"

definition spline_c1 :: "'f float64_ops \<Rightarrow> 'f list \<Rightarrow> 'f \<Rightarrow> 'f \<Rightarrow> 'f" where
  "spline_c1 fp yi h0 h1 =
     (let y0 = yi ! 0; y1 = yi ! 1; y2 = yi ! 2
      in fmul fp (fdiv fp (of_int64 fp 6) (fadd fp h0 h1))
           (fsub fp (fdiv fp (fsub fp y2 y1) h1) (fdiv fp (fsub fp y1 y0) h0)))"

definition spline_c2 :: "'f float64_ops \<Rightarrow> 'f list \<Rightarrow> 'f \<Rightarrow> 'f \<Rightarrow> 'f" where
  "spline_c2 fp yi h1 h2 =
     (let y1 = yi ! 1; y2 = yi ! 2; y3 = yi ! 3
      in fmul fp (fdiv fp (of_int64 fp 6) (fadd fp h1 h2))
           (fsub fp (fdiv fp (fsub fp y3 y2) h2) (fdiv fp (fsub fp y2 y1) h1)))"

definition spline_m1 :: "'f float64_ops \<Rightarrow> 'f \<Rightarrow> 'f \<Rightarrow> 'f \<Rightarrow> 'f \<Rightarrow> 'f" where
  "spline_m1 fp c1 c2 u1 l2 =
     fdiv fp (fsub fp (fdiv fp c1 u1) (fdiv fp c2 (of_int64 fp 2)))
             (fsub fp (fdiv fp (of_int64 fp 2) u1) (fdiv fp l2 (of_int64 fp 2)))"

definition spline_m2 :: "'f float64_ops \<Rightarrow> 'f \<Rightarrow> 'f \<Rightarrow> 'f \<Rightarrow> 'f \<Rightarrow> 'f" where
  "spline_m2 fp c1 c2 u1 l2 =
     fdiv fp (fsub fp (fdiv fp c1 (of_int64 fp 2)) (fdiv fp c2 l2))
             (fsub fp (fdiv fp u1 (of_int64 fp 2)) (fdiv fp (of_int64 fp 2) l2))"

definition spline_z0 :: "'f float64_ops \<Rightarrow> 'f \<Rightarrow> 'f \<Rightarrow> 'f \<Rightarrow> 'f \<Rightarrow> 'f \<Rightarrow> 'f \<Rightarrow> 'f \<Rightarrow> 'f" where
  "spline_z0 fp m1 h0 x0 x1 y0 y1 x =
     (let six = of_int64 fp 6; d0 = fsub fp x x0;
          v0 = of_int64 fp 0;
          v1 = fdiv fp (fmul fp (fmul fp (fmul fp d0 d0) d0) m1) (fmul fp six h0);
          v2 = fdiv fp (fmul fp (fmul fp (of_int64 fp (- 1)) y0) (fsub fp x x1)) h0;
          v3 = fdiv fp (fmul fp (fsub fp y1 (fdiv fp (fmul fp (fmul fp h0 h0) m1) six)) d0) h0
      in fadd fp (fadd fp (fadd fp v0 v1) v2) v3)"

definition spline_z1 :: "'f float64_ops \<Rightarrow> 'f \<Rightarrow> 'f \<Rightarrow> 'f \<Rightarrow> 'f \<Rightarrow> 'f \<Rightarrow> 'f \<Rightarrow> 'f \<Rightarrow> 'f \<Rightarrow> 'f" where
  "spline_z1 fp m1 m2 h1 x1 x2 y1 y2 x =
     (let six = of_int64 fp 6; d1 = fsub fp x x1; d2 = fsub fp x x2;
          v0 = fdiv fp (fmul fp (fmul fp (fmul fp (fmul fp (of_int64 fp (- 1)) d2) d2) d2) m1)
                 (fmul fp six h1);
          v1 = fdiv fp (fmul fp (fmul fp (fmul fp d1 d1) d1) m2) (fmul fp six h1);
          v2 = fdiv fp (fmul fp (fmul fp (of_int64 fp (- 1))
                 (fsub fp y1 (fdiv fp (fmul fp (fmul fp h1 h1) m1) six))) d2) h1;
          v3 = fdiv fp (fmul fp (fsub fp y2 (fdiv fp (fmul fp (fmul fp h1 h1) m2) six)) d1) h1
      in fadd fp (fadd fp (fadd fp v0 v1) v2) v3)"

definition spline_z2 :: "'f float64_ops \<Rightarrow> 'f \<Rightarrow> 'f \<Rightarrow> 'f \<Rightarrow> 'f \<Rightarrow> 'f \<Rightarrow> 'f \<Rightarrow> 'f \<Rightarrow> 'f" where
  "spline_z2 fp m2 h2 x2 x3 y2 y3 x =
     (let six = of_int64 fp 6; d2 = fsub fp x x2; d3 = fsub fp x x3;
          v0 = fdiv fp (fmul fp (fmul fp (fmul fp (fmul fp (of_int64 fp (- 1)) d3) d3) d3) m2)
                 (fmul fp six h2);
          v1 = of_int64 fp 0;
          v2 = fdiv fp (fmul fp (fmul fp (of_int64 fp (- 1))
                 (fsub fp y2 (fdiv fp (fmul fp (fmul fp h2 h2) m2) six))) d3) h2;
          v3 = fdiv fp (fmul fp y3 d2) h2
      in fadd fp (fadd fp (fadd fp v0 v1) v2) v3)"

text \<open>\<open>spline\<close> writes one output per position of \<open>xo\<close> into \<open>yo\<close>; the model returns the new
  \<open>yo\<close>.\<close>

definition spline :: "'f float64_ops \<Rightarrow> 'f list \<Rightarrow> 'f list \<Rightarrow> 'f list \<Rightarrow> 'f list \<Rightarrow> error + 'f list" where
  "spline fp xi yi xo yo =
     (if length xi \<noteq> 4 then Inl InvalidXi
      else if length yi \<noteq> 4 then Inl InvalidYi
      else if length xo = 0 then Inl InvalidXo
      else if length yo \<noteq> length xo then Inl InvalidYo
      else
        let x0 = xi ! 0; x1 = xi ! 1; x2 = xi ! 2; x3 = xi ! 3;
            y0 = yi ! 0; y1 = yi ! 1; y2 = yi ! 2; y3 = yi ! 3;
            (h0, h1, h2, l1, u1, l2, u2) = spline_lu fp xi;
            c1 = spline_c1 fp yi h0 h1; c2 = spline_c2 fp yi h1 h2;
            m1 = spline_m1 fp c1 c2 u1 l2; m2 = spline_m2 fp c1 c2 u1 l2
        in Inr (map (\<lambda>v. if fle fp v x1 then spline_z0 fp m1 h0 x0 x1 y0 y1 v
                          else if fle fp v x2 then spline_z1 fp m1 m2 h1 x1 x2 y1 y2 v
                          else spline_z2 fp m2 h2 x2 x3 y2 y3 v) xo))"

subsection \<open>One channel\<close>

text \<open>Reading \<open>ipcm[i]\<close>: a panic outside the slice.\<close>

definition index :: "'a list \<Rightarrow> int \<Rightarrow> 'a option" where
  "index xs i = (if 0 \<le> i \<and> i < int (length xs) then Some (xs ! nat i) else None)"

text \<open>
  The body of the loop of \<open>resampleChannel\<close> at position \<open>x\<close>: the new output sample and the
  new value of \<open>consumed\<close>. \<open>int(uint64(..) - org)\<close> is a 64-bit subtraction read as signed.
\<close>

definition resampleStep :: "'f float64_ops \<Rightarrow> int16 list \<Rightarrow> uint64 \<Rightarrow> 'f \<Rightarrow> (int16 \<times> int) result" where
  "resampleStep fp ipcm org x =
     (let xi0 = of_uint64 fp (to_uint64 fp x);
          one = of_int64 fp 1; two = of_int64 fp 2; three = of_int64 fp 3;
          xi = [xi0, fadd fp xi0 one, fadd fp xi0 two, fadd fp xi0 three];
          yi0 = sint (to_uint64 fp xi0 - org)
      in case (index ipcm yi0, index ipcm (yi0 + 1), index ipcm (yi0 + 2), index ipcm (yi0 + 3)) of
           (Some a, Some b, Some c, Some d) \<Rightarrow>
             (let yi = map (\<lambda>s. of_int64 fp (sint s)) [a, b, c, d]
              in case spline fp xi yi [x] [of_int64 fp 0] of
                   Inl e \<Rightarrow> Err e
                 | Inr yo \<Rightarrow> Ok (to_int16 fp (yo ! 0), wrap64 (sint (to_uint64 fp x - org) + 1)))
         | _ \<Rightarrow> Panic IndexOutOfRange)"

text \<open>
  \<open>for x := x0; x < float64(last); x += step\<close>. Nothing bounds the number of rounds for
  arbitrary arithmetic, so the loop is a partial function: \<open>None\<close> when it never ends.
\<close>

partial_function (option) resampleLoop ::
  "'f float64_ops \<Rightarrow> int16 list \<Rightarrow> uint64 \<Rightarrow> 'f \<Rightarrow> 'f \<Rightarrow> 'f \<Rightarrow> int16 list \<Rightarrow> int
     \<Rightarrow> (int16 list \<times> int) result option" where
  "resampleLoop fp ipcm org step lastf x opcm consumed =
     (if flt fp x lastf then
        (case resampleStep fp ipcm org x of
           Ok (y, c) \<Rightarrow> resampleLoop fp ipcm org step lastf (fadd fp x step) (opcm @ [y]) c
         | Err e \<Rightarrow> Some (Err e)
         | Panic p \<Rightarrow> Some (Panic p)
         | Diverges \<Rightarrow> Some Diverges)
      else Some (Ok (opcm, consumed)))"

declare resampleLoop.simps [code]

definition resampleChannel ::
  "'f float64_ops \<Rightarrow> int16 list \<Rightarrow> int \<Rightarrow> int \<Rightarrow> uint64 \<Rightarrow> uint64 \<Rightarrow> (int16 list \<times> int) result" where
  "resampleChannel fp ipcm isr' osr' written org =
     (if length ipcm \<le> 16 then Ok ([], 0)
      else
        let available = int (length ipcm) - 16;
            step = fdiv fp (of_int64 fp isr') (of_int64 fp osr');
            x0 = fmul fp step (of_uint64 fp written);
            last = org + word_of_int available
        in case resampleLoop fp ipcm org step (of_uint64 fp last) x0 [] 0 of
             None \<Rightarrow> Diverges
           | Some r \<Rightarrow> r)"

text \<open>\<open>resampleInitChannel\<close>: the 16-bit little-endian samples of one channel; nil when the
  channel does not exist. The loop runs only when \<open>channel < channels\<close>, so its stride
  \<open>2 * channels\<close> is positive.\<close>

function initLoop :: "byte list \<Rightarrow> int \<Rightarrow> int \<Rightarrow> int16 list \<Rightarrow> int16 list result" where
  "initLoop pcm chans i ipcm =
     (if i < int (length pcm) \<and> 0 < chans \<and> 0 \<le> i then
        (case (index pcm i, index pcm (i + 1)) of
           (Some b0, Some b1) \<Rightarrow>
             initLoop pcm chans (i + 2 * chans) (ipcm @ [ucast b0 OR push_bit 8 (ucast b1)])
         | _ \<Rightarrow> Panic IndexOutOfRange)
      else Ok ipcm)"
  by pat_completeness auto
termination
  by (relation "measure (\<lambda>(pcm, chans, i, ipcm). nat (int (length pcm) - i))") auto

declare initLoop.simps [simp del]

definition resampleInitChannel :: "byte list \<Rightarrow> int \<Rightarrow> int \<Rightarrow> int16 list option result" where
  "resampleInitChannel pcm chans channel =
     (if chans \<le> channel then Ok None
      else case initLoop pcm chans (2 * channel) [] of
             Ok ipcm \<Rightarrow> Ok (Some ipcm)
           | Err e \<Rightarrow> Err e
           | Panic p \<Rightarrow> Panic p
           | Diverges \<Rightarrow> Diverges)"

text \<open>\<open>resampleMerge\<close>: interleave the channels as little-endian bytes; \<open>right[i]\<close> panics
  when the right channel is shorter than the left.\<close>

definition lo_byte :: "int16 \<Rightarrow> byte" where
  "lo_byte v = ucast v"

definition hi_byte :: "int16 \<Rightarrow> byte" where
  "hi_byte v = ucast (signed_drop_bit 8 v)"

fun resampleMerge :: "int16 list \<Rightarrow> int16 list option \<Rightarrow> byte list result" where
  "resampleMerge [] right = Ok []"
| "resampleMerge (v # left) None =
     (case resampleMerge left None of
        Ok npcm \<Rightarrow> Ok (lo_byte v # hi_byte v # npcm)
      | r \<Rightarrow> r)"
| "resampleMerge (v # left) (Some []) = Panic IndexOutOfRange"
| "resampleMerge (v # left) (Some (w # right)) =
     (case resampleMerge left (Some right) of
        Ok npcm \<Rightarrow> Ok (lo_byte v # hi_byte v # lo_byte w # hi_byte w # npcm)
      | r \<Rightarrow> r)"

subsection \<open>Handle\<close>

text \<open>
  The second half of \<open>Handle\<close>, after the shape checks: prepend the caches, resample the left
  channel, then the right one, then merge. The resampler is returned as the code leaves it,
  also when the call ends in an error or a panic.
\<close>

definition slice_from :: "'a list \<Rightarrow> int \<Rightarrow> 'a list option" where
  "slice_from xs i = (if 0 \<le> i \<and> i \<le> int (length xs) then Some (drop (nat i) xs) else None)"

text \<open>
  The output of \<open>resampleChannel\<close> is nil exactly when it is empty: the result variable is nil
  until the first \<open>append\<close>. \<open>resampleMerge\<close> tests \<open>right != nil\<close>, so an empty right output is
  merged as no right channel at all.
\<close>

definition nil_if_empty :: "'a list \<Rightarrow> 'a list option" where
  "nil_if_empty xs = (if xs = [] then None else Some xs)"

definition handleRight ::
  "'f float64_ops \<Rightarrow> goResampler \<Rightarrow> int16 list \<Rightarrow> int16 list option \<Rightarrow> byte list result \<times> goResampler" where
  "handleRight fp v opcmLeft ipcmRight =
     (case ipcmRight of
        None \<Rightarrow> (resampleMerge opcmLeft None, v)
      | Some ipcmR \<Rightarrow>
          (case resampleChannel fp ipcmR (isr v) (osr v) (rws v) (rcs v) of
             Ok (opcmRight, consumed) \<Rightarrow>
               (let v1 = v\<lparr> rws := rws v + of_nat (length opcmRight),
                            rcs := rcs v + word_of_int consumed \<rparr>
                in if consumed < int (length ipcmR) then
                     (case slice_from ipcmR consumed of
                        None \<Rightarrow> (Panic SliceBoundsOutOfRange, v1)
                      | Some tail \<Rightarrow> (resampleMerge opcmLeft (nil_if_empty opcmRight), v1\<lparr> rcache := tail \<rparr>))
                   else (resampleMerge opcmLeft (nil_if_empty opcmRight), v1))
           | Err e \<Rightarrow> (Err e, v)
           | Panic p \<Rightarrow> (Panic p, v)
           | Diverges \<Rightarrow> (Diverges, v)))"

definition handleChannels ::
  "'f float64_ops \<Rightarrow> goResampler \<Rightarrow> int16 list \<Rightarrow> int16 list option \<Rightarrow> byte list result \<times> goResampler" where
  "handleChannels fp v ipcmLeft0 ipcmRight0 =
     (let ipcmLeft = (if lcache v \<noteq> [] then lcache v @ ipcmLeft0 else ipcmLeft0);
          v1 = v\<lparr> lcache := [] \<rparr>;
          ipcmRight = (case ipcmRight0 of
                         None \<Rightarrow> None
                       | Some r \<Rightarrow> Some (if rcache v1 \<noteq> [] then rcache v1 @ r else r));
          v2 = (if ipcmRight0 \<noteq> None then v1\<lparr> rcache := [] \<rparr> else v1)
      in case resampleChannel fp ipcmLeft (isr v2) (osr v2) (lws v2) (lcs v2) of
           Ok (opcmLeft, consumed) \<Rightarrow>
             (let v3 = v2\<lparr> lws := lws v2 + of_nat (length opcmLeft),
                           lcs := lcs v2 + word_of_int consumed \<rparr>
              in if consumed < int (length ipcmLeft) then
                   (case slice_from ipcmLeft consumed of
                      None \<Rightarrow> (Panic SliceBoundsOutOfRange, v3)
                    | Some tail \<Rightarrow> handleRight fp (v3\<lparr> lcache := tail \<rparr>) opcmLeft ipcmRight)
                 else handleRight fp v3 opcmLeft ipcmRight)
         | Err e \<Rightarrow> (Err e, v2)
         | Panic p \<Rightarrow> (Panic p, v2)
         | Diverges \<Rightarrow> (Diverges, v2))"

definition the_slice :: "'a list option \<Rightarrow> 'a list" where
  "the_slice s = (case s of None \<Rightarrow> [] | Some xs \<Rightarrow> xs)"

definition Handle :: "'f float64_ops \<Rightarrow> goResampler \<Rightarrow> byte list \<Rightarrow> byte list result \<times> goResampler" where
  "Handle fp v pcm =
     (if length pcm = 0 then (Err EmptyPcm, v)
      else if 2 * channels v = 0 then (Panic IntegerDivideByZero, v)
      else if int (length pcm) smod (2 * channels v) \<noteq> 0 then (Err (InvalidPcmMod (2 * channels v)), v)
      else if isr v = osr v then (Ok pcm, v)
      else
        let nbSamles = int (length pcm) sdiv 2 sdiv channels v
        in if nbSamles < 4 then (Err (AtLeast4Samples nbSamles), v)
           else
             (case resampleInitChannel pcm (channels v) 0 of
                Ok ipcmLeft \<Rightarrow>
                  (case resampleInitChannel pcm (channels v) 1 of
                     Ok ipcmRight \<Rightarrow>
                       (if ipcmRight \<noteq> None \<and> length (the_slice ipcmLeft) \<noteq> length (the_slice ipcmRight)
                        then (Err (ChannelLengthMismatch (int (length (the_slice ipcmLeft)))
                                     (int (length (the_slice ipcmRight)))), v)
                        else handleChannels fp v (the_slice ipcmLeft) ipcmRight)
                   | Err e \<Rightarrow> (Err e, v)
                   | Panic p \<Rightarrow> (Panic p, v)
                   | Diverges \<Rightarrow> (Diverges, v))
              | Err e \<Rightarrow> (Err e, v)
              | Panic p \<Rightarrow> (Panic p, v)
              | Diverges \<Rightarrow> (Diverges, v)))"

subsection \<open>What a successful call leaves behind\<close>

text \<open>The samples of one channel of an input buffer (none when the channel does not
  exist).\<close>

definition channelSamples :: "byte list \<Rightarrow> int \<Rightarrow> int \<Rightarrow> int16 list" where
  "channelSamples pcm chans channel =
     (case resampleInitChannel pcm chans channel of Ok (Some ipcm) \<Rightarrow> ipcm | _ \<Rightarrow> [])"

text \<open>
  What the resampler needs of the arithmetic, for the counters below \<open>2 ^ 53\<close>: conversions,
  sums, products and quotients of values that are not negative are not negative; an integer
  below \<open>2 ^ 53\<close> survives the conversion to \<open>float64\<close> and back; a value that is not negative
  and below such an integer truncates below it.
\<close>

definition nonneg :: "'f float64_ops \<Rightarrow> 'f \<Rightarrow> bool" where
  "nonneg fp x = fle fp (of_int64 fp 0) x"

definition float64_laws :: "'f float64_ops \<Rightarrow> bool" where
  "float64_laws fp \<longleftrightarrow>
     (\<forall>i. 0 \<le> i \<longrightarrow> nonneg fp (of_int64 fp i)) \<and>
     (\<forall>w. nonneg fp (of_uint64 fp w)) \<and>
     (\<forall>a b. nonneg fp a \<longrightarrow> nonneg fp b \<longrightarrow>
        nonneg fp (fadd fp a b) \<and> nonneg fp (fmul fp a b) \<and> nonneg fp (fdiv fp a b)) \<and>
     (\<forall>w. uint w < 2 ^ 53 \<longrightarrow> to_uint64 fp (of_uint64 fp w) = w) \<and>
     (\<forall>x w. uint w < 2 ^ 53 \<longrightarrow> nonneg fp x \<longrightarrow> flt fp x (of_uint64 fp w) \<longrightarrow>
        to_uint64 fp x < w)"

text \<open>
  One channel after a successful call that wrote \<open>opcm\<close> and consumed \<open>consumed\<close> samples of
  the old cache followed by the new samples: the cache is what was not consumed, and it holds
  at least 16 samples, or all of them when there are fewer; the counters have advanced by the
  two amounts; something is consumed exactly when something is written.
\<close>

definition channel_kept ::
  "int16 list \<Rightarrow> uint64 \<Rightarrow> uint64 \<Rightarrow> int16 list \<Rightarrow> int16 list \<Rightarrow> int
     \<Rightarrow> int16 list \<Rightarrow> uint64 \<Rightarrow> uint64 \<Rightarrow> bool" where
  "channel_kept cache ws cs samples opcm consumed cache' ws' cs' \<longleftrightarrow>
     0 \<le> consumed \<and>
     cache' = drop (nat consumed) (cache @ samples) \<and>
     min 16 (length (cache @ samples)) \<le> length cache' \<and>
     (if opcm = [] then consumed = 0 else 1 \<le> consumed) \<and>
     ws' = ws + of_nat (length opcm) \<and>
     cs' = cs + word_of_int consumed \<and>
     uint cs' = uint cs + consumed \<and>
     (if uint ws + int (length opcm) < 2 ^ 64 then uint ws' = uint ws + int (length opcm) else True)"

section \<open>Transcoder\<close>

subsection \<open>Base64 (the standard alphabet, padded)\<close>

definition b64chars :: string where
  "b64chars = ''ABCDEFGHIJKLMNOPQRSTUVWXYZabcdefghijklmnopqrstuvwxyz0123456789+/''"

definition b64char :: "nat \<Rightarrow> char" where
  "b64char n = b64chars ! (n mod 64)"

definition b64val :: "char \<Rightarrow> nat option" where
  "b64val c = map_of (zip b64chars [0 ..< 64]) c"

fun b64encode :: "byte list \<Rightarrow> string" where
  "b64encode [] = []"
| "b64encode [a] =
     (let x = unat a in [b64char (x div 4), b64char (x mod 4 * 16), CHR ''='', CHR ''=''])"
| "b64encode [a, b] =
     (let x = unat a; y = unat b
      in [b64char (x div 4), b64char (x mod 4 * 16 + y div 16), b64char (y mod 16 * 4), CHR ''=''])"
| "b64encode (a # b # c # rest) =
     (let x = unat a; y = unat b; z = unat c
      in b64char (x div 4) # b64char (x mod 4 * 16 + y div 16)
         # b64char (y mod 16 * 4 + z div 64) # b64char (z mod 64) # b64encode rest)"

text \<open>Decoding ignores carriage returns and line feeds, wants groups of four characters and
  accepts padding in the last group only.\<close>

fun b64groups :: "string \<Rightarrow> byte list option" where
  "b64groups [] = Some []"
| "b64groups (a # b # c # d # rest) =
     (case (b64val a, b64val b) of
        (Some x, Some y) \<Rightarrow>
          (if c = CHR ''='' \<and> d = CHR ''='' \<and> rest = [] then Some [of_nat (x * 4 + y div 16)]
           else case b64val c of
                  None \<Rightarrow> None
                | Some z \<Rightarrow>
                    (if d = CHR ''='' \<and> rest = []
                     then Some [of_nat (x * 4 + y div 16), of_nat (y mod 16 * 16 + z div 4)]
                     else case (b64val d, b64groups rest) of
                            (Some w, Some bs) \<Rightarrow>
                              Some (of_nat (x * 4 + y div 16) # of_nat (y mod 16 * 16 + z div 4)
                                    # of_nat (z mod 4 * 64 + w) # bs)
                          | _ \<Rightarrow> None))
      | _ \<Rightarrow> None)"
| "b64groups _ = None"

definition b64decode :: "string \<Rightarrow> byte list option" where
  "b64decode s = b64groups (filter (\<lambda>c. c \<noteq> CHR 0x0D \<and> c \<noteq> CHR 0x0A) s)"

subsection \<open>The codec library\<close>

text \<open>
  The compressed-audio codec is a library outside the repository: a parameter of the model.
  \<open>opus_decode rate data\<close> is \<open>opus.NewDecoder(rate, 1)\<close> followed by \<open>Decode\<close> into a buffer of
  4096 samples: the decoded samples, or the message of the error of either call.
  \<open>opus_encode enc pcm\<close> is one \<open>Encode\<close> call on the streaming encoder: its new state and
  the bytes \<open>data[:n]\<close> (no bytes when the call fails: the code prints the error and goes on).
\<close>

record 'e opus_codec =
  opus_decode :: "int \<Rightarrow> byte list \<Rightarrow> string + int16 list"
  opus_encode :: "'e \<Rightarrow> int16 list \<Rightarrow> 'e \<times> byte list"
  opus_new_encoder :: "'e"

subsection \<open>Converter\<close>

definition DeviceOpusRate24k :: int where "DeviceOpusRate24k = 24000"
definition DefaultDownPcmSR :: int where "DefaultDownPcmSR = 24000"
definition DefaultUpPcmSR :: int where "DefaultUpPcmSR = 24000"

text \<open>The fields the code reads or writes; the unused decoder and gain configuration are
  left out. The emit callback is passed to the functions that call it.\<close>

record 'e Converter =
  c_SampleRate :: int
  c_DownSampleRate :: int
  c_Channels :: int
  c_FrameSize :: int
  c_FrameDuration :: int
  c_DownDuration :: int
  upReSampler :: goResampler
  downReSampler :: goResampler
  delta :: "int16 list"
  Encoder :: 'e

definition NewConverter :: "'e opus_codec \<Rightarrow> int \<Rightarrow> int \<Rightarrow> int \<Rightarrow> int \<Rightarrow> 'e Converter result" where
  "NewConverter opus sampleRate chans frameDuration frameSize =
     (case NewGoResampler chans sampleRate DefaultUpPcmSR of
        Inl e \<Rightarrow> Panic (ConstructorPanic e)
      | Inr upSampler \<Rightarrow>
          (case NewGoResampler chans DefaultDownPcmSR DeviceOpusRate24k of
             Inl e \<Rightarrow> Panic (ConstructorPanic e)
           | Inr downSampler \<Rightarrow>
               Ok \<lparr> c_SampleRate = sampleRate, c_DownSampleRate = DeviceOpusRate24k,
                    c_Channels = chans, c_FrameSize = frameSize,
                    c_FrameDuration = frameDuration, c_DownDuration = frameDuration,
                    upReSampler = upSampler, downReSampler = downSampler,
                    delta = [], Encoder = opus_new_encoder opus \<rparr>))"

text \<open>
  \<open>gain\<close> multiplies in \<open>float32\<close> and saturates. The two factors the code passes are 3 and 8;
  a 16-bit sample times either is an integer below \<open>2 ^ 24\<close>, which \<open>float32\<close> holds exactly, so
  the product, the comparisons and the conversion back are exact integer arithmetic.
\<close>

definition gain :: "int16 list \<Rightarrow> int \<Rightarrow> int16 list" where
  "gain input f =
     map (\<lambda>sample. let adjustedSample = sint sample * f
                    in if 32767 < adjustedSample then word_of_int 32767
                       else if adjustedSample < - 32768 then word_of_int (- 32768)
                       else word_of_int adjustedSample) input"

definition int16ToBytes :: "int16 list \<Rightarrow> byte list" where
  "int16ToBytes s = concat (map (\<lambda>v. [lo_byte v, hi_byte v]) s)"

text \<open>\<open>bytesToInt16\<close> reads little-endian samples until the end of the input; a trailing odd
  byte makes the read fail with an error other than end-of-file, and the result is nil.\<close>

fun readInt16s :: "byte list \<Rightarrow> int16 list option" where
  "readInt16s [] = Some []"
| "readInt16s [b] = None"
| "readInt16s (b0 # b1 # rest) =
     (case readInt16s rest of
        None \<Rightarrow> None
      | Some r \<Rightarrow> Some ((ucast b0 OR push_bit 8 (ucast b1)) # r))"

definition bytesToInt16 :: "byte list \<Rightarrow> int16 list" where
  "bytesToInt16 b = the_slice (readInt16s b)"

definition opus2pcm :: "'e opus_codec \<Rightarrow> 'e Converter \<Rightarrow> byte list \<Rightarrow> string + byte list" where
  "opus2pcm opus c audioData =
     (if length audioData = 0 then Inr []
      else case opus_decode opus (c_SampleRate c) audioData of
             Inl msg \<Rightarrow> Inl msg
           | Inr pcm \<Rightarrow> Inr (int16ToBytes (gain pcm 3)))"

text \<open>\<open>OpusToPcmBase64\<close> on a possibly nil converter: the length test does not touch the
  receiver, the decoding reads \<open>c.SampleRate\<close>.\<close>

definition OpusToPcmBase64 ::
  "'f float64_ops \<Rightarrow> 'e opus_codec \<Rightarrow> 'e Converter option \<Rightarrow> byte list
     \<Rightarrow> string result \<times> 'e Converter option" where
  "OpusToPcmBase64 fp opus c opusData =
     (if length opusData = 0 then (Err EmptyOpusData, c)
      else case c of
             None \<Rightarrow> (Panic NilPointerDereference, c)
           | Some cv \<Rightarrow>
               (case opus2pcm opus cv opusData of
                  Inl msg \<Rightarrow> (Err (OpusDecodeFailed msg), c)
                | Inr pcmData \<Rightarrow>
                    (case Handle fp (upReSampler cv) pcmData of
                       (r, up) \<Rightarrow>
                         (let c' = Some (cv\<lparr> upReSampler := up \<rparr>)
                          in case r of
                               Ok resampledData \<Rightarrow> (Ok (b64encode resampledData), c')
                             | Err e \<Rightarrow> (Err (UpResamplerFailed e), c')
                             | Panic p \<Rightarrow> (Panic p, c')
                             | Diverges \<Rightarrow> (Diverges, c')))))"

text \<open>
  The loop of \<open>parseFrames\<close>: \<open>for i := 0; i < len(c.delta); i += chunk\<close>. The callback works on
  a state of its own (the translator's); the error it returns is dropped by the caller, so it
  is not part of the model, but a panic inside it ends the loop. A chunk that is not positive
  makes the first slice expression panic. The length is a multiple of \<open>chunk\<close>, so the slice
  never passes the end.
\<close>

function encodeLoop ::
  "'e opus_codec \<Rightarrow> ('s \<Rightarrow> byte list \<Rightarrow> 's result) \<Rightarrow> int16 list \<Rightarrow> int \<Rightarrow> int \<Rightarrow> 'e \<Rightarrow> 's
     \<Rightarrow> unit result \<times> 'e \<times> 's" where
  "encodeLoop opus cb d chunk i enc s =
     (if i < int (length d) \<and> 0 \<le> i then
        (if chunk \<le> 0 \<or> int (length d) < i + chunk then (Panic SliceBoundsOutOfRange, enc, s)
         else
           (case opus_encode opus enc (take (nat chunk) (drop (nat i) d)) of
              (enc', frame) \<Rightarrow>
                (case cb s frame of
                   Ok s' \<Rightarrow> encodeLoop opus cb d chunk (i + chunk) enc' s'
                 | Err e \<Rightarrow> (Err e, enc', s)
                 | Panic p \<Rightarrow> (Panic p, enc', s)
                 | Diverges \<Rightarrow> (Diverges, enc', s))))
      else (Ok (), enc, s))"
  by pat_completeness auto
termination
  by (relation "measure (\<lambda>(opus, cb, d, chunk, i, enc, s). nat (int (length d) - i))") auto

declare encodeLoop.simps [simp del]

text \<open>The first two lines of \<open>parseFrames\<close>: the buffer after the append, and \<open>chunk\<close>.\<close>

definition appended :: "'e Converter \<Rightarrow> byte list \<Rightarrow> int16 list" where
  "appended c audioDelta = delta c @ gain (bytesToInt16 audioDelta) 8"

definition chunkOf :: "'e Converter \<Rightarrow> int" where
  "chunkOf c = wrap64 (c_DownDuration c * c_DownSampleRate c) sdiv 1000"

definition parseFrames ::
  "'e opus_codec \<Rightarrow> ('s \<Rightarrow> byte list \<Rightarrow> 's result) \<Rightarrow> 'e Converter \<Rightarrow> byte list \<Rightarrow> 's
     \<Rightarrow> unit result \<times> 'e Converter \<times> 's" where
  "parseFrames opus cb c audioDelta s =
     (let d1 = appended c audioDelta;
          chunk = chunkOf c
      in if chunk = 0 then (Panic IntegerDivideByZero, c\<lparr> delta := d1 \<rparr>, s)
         else
           let n = int (length d1); r = n smod chunk;
               rest = (if r \<noteq> 0 then drop (nat (n - r)) d1 else []);
               d2 = (if r \<noteq> 0 then take (nat (n - r)) d1 else d1)
           in case encodeLoop opus cb d2 chunk 0 (Encoder c) s of
                (Ok u, enc, s') \<Rightarrow> (Ok (), c\<lparr> delta := rest, Encoder := enc \<rparr>, s')
              | (out, enc, s') \<Rightarrow> (out, c\<lparr> delta := d2, Encoder := enc \<rparr>, s'))"

text \<open>\<open>ResolvePCM\<close> on a possibly nil converter: the base64 decoding does not touch the
  receiver, \<open>parseFrames\<close> reads \<open>c.delta\<close>.\<close>

definition ResolvePCM ::
  "'e opus_codec \<Rightarrow> ('s \<Rightarrow> byte list \<Rightarrow> 's result) \<Rightarrow> 'e Converter option \<Rightarrow> string \<Rightarrow> 's
     \<Rightarrow> unit result \<times> 'e Converter option \<times> 's" where
  "ResolvePCM opus cb c base64Str s =
     (case b64decode base64Str of
        None \<Rightarrow> (Err Base64DecodeFailed, c, s)
      | Some d \<Rightarrow>
          (case c of
             None \<Rightarrow> (Panic NilPointerDereference, c, s)
           | Some cv \<Rightarrow>
               (case parseFrames opus cb cv d s of
                  (Ok u, cv', s') \<Rightarrow> (Ok (), Some cv', s')
                | (out, cv', s') \<Rightarrow> (out, Some cv', s'))))"

subsection \<open>The chunking, in the words of the specification\<close>

text \<open>
  The specification of the upstream-to-device path: while the buffer holds at least \<open>chunk\<close>
  samples, one frame is encoded from the next \<open>chunk\<close> samples. \<open>spec_chunks\<close> are those
  chunks; \<open>spec_encode\<close> runs the streaming encoder over them in order.
\<close>

definition spec_chunks :: "nat \<Rightarrow> 'a list \<Rightarrow> 'a list list" where
  "spec_chunks k xs = map (\<lambda>j. take k (drop (j * k) xs)) [0 ..< length xs div k]"

fun spec_encode :: "'e opus_codec \<Rightarrow> 'e \<Rightarrow> int16 list list \<Rightarrow> 'e \<times> byte list list" where
  "spec_encode opus enc [] = (enc, [])"
| "spec_encode opus enc (p # ps) =
     (case opus_encode opus enc p of
        (enc1, frame) \<Rightarrow>
          (case spec_encode opus enc1 ps of
             (enc2, frames) \<Rightarrow> (enc2, frame # frames)))"

section \<open>Device protocol\<close>

record AudioParams =
  ap_Format :: string
  ap_SampleRate :: int
  ap_Channels :: int
  ap_FrameDuration :: int

definition ClientEventTypeHello :: string where "ClientEventTypeHello = ''hello''"
definition ClientEventTypeListen :: string where "ClientEventTypeListen = ''listen''"
definition ClientEventTypeAppendBuffer :: string where "ClientEventTypeAppendBuffer = ''append.buffer''"
definition ClientEventTypeAbort :: string where "ClientEventTypeAbort = ''abort''"
definition ClientEventTypeIot :: string where "ClientEventTypeIot = ''iot''"

record ClientEventBase =
  ce_Type :: string
  ce_Version :: int
  ce_Transport :: string
  ce_SessionID :: string
  ce_AudioParams :: "AudioParams option"

text \<open>The device's events: the base, then the variant's own fields (state and mode, bytes,
  reason, data).\<close>

datatype ClientEvent =
    ClientEventHello ClientEventBase
  | ClientEventListen ClientEventBase string string
  | ClientEventAppendBuffer ClientEventBase "byte list"
  | ClientEventAbort ClientEventBase string
  | ClientEventIot ClientEventBase string

definition UnmarshalClientBinEvent :: "byte list \<Rightarrow> ClientEvent" where
  "UnmarshalClientBinEvent data =
     ClientEventAppendBuffer
       \<lparr> ce_Type = ClientEventTypeAppendBuffer, ce_Version = 0, ce_Transport = [],
         ce_SessionID = [], ce_AudioParams = None \<rparr> data"

definition ServerEventTypeError :: string where "ServerEventTypeError = ''error''"
definition ServerEventTypeHello :: string where "ServerEventTypeHello = ''hello''"
definition ServerEventTypeSTT :: string where "ServerEventTypeSTT = ''stt''"
definition ServerEventTypeLLM :: string where "ServerEventTypeLLM = ''llm''"
definition ServerEventTypeTTS :: string where "ServerEventTypeTTS = ''tts''"

definition ServerTTSStateStart :: string where "ServerTTSStateStart = ''start''"
definition ServerTTSStateStop :: string where "ServerTTSStateStop = ''stop''"
definition ServerTTSStateSentenceStart :: string where "ServerTTSStateSentenceStart = ''sentence_start''"
definition ServerTTSStateSentenceEnd :: string where "ServerTTSStateSentenceEnd = ''sentence_end''"

record ServerEventBase =
  se_Type :: string
  se_SessionId :: string

text \<open>The gateway's events to the device: error text; transport and audio parameters; text;
  text and emotion; state, text and sample rate.\<close>

datatype ServerEvent =
    ServerEventError ServerEventBase string
  | ServerEventHello ServerEventBase string AudioParams
  | ServerEventSTT ServerEventBase string
  | ServerEventLLM ServerEventBase string string
  | ServerEventTTS ServerEventBase string string int

text \<open>What travels on the write queue (\<open>chan any\<close>): a device event or a compressed frame.\<close>

datatype QueueItem = QEvent ServerEvent | QFrame "byte list"

section \<open>Upstream protocol\<close>

subsection \<open>Client events\<close>

definition ClientEventTypeSessionUpdate :: string where
  "ClientEventTypeSessionUpdate = ''session.update''"
definition ClientEventTypeInputAudioBufferAppend :: string where
  "ClientEventTypeInputAudioBufferAppend = ''input_audio_buffer.append''"
definition ClientEventTypeResponseCancel :: string where
  "ClientEventTypeResponseCancel = ''response.cancel''"

record RtClientEventBase =
  rce_EventID :: string
  rce_Type :: string

record TurnDetection =
  td_Type :: string

text \<open>The fields of the session configuration that the gateway sets; the others stay at
  their zero value.\<close>

record ClientSession =
  cs_Modalities :: "string list"
  cs_Instructions :: "string option"
  cs_Voice :: "string option"
  cs_InputAudioFormat :: "string option"
  cs_OutputAudioFormat :: "string option"
  cs_TurnDetection :: "TurnDetection option"
  cs_ToolChoice :: "string option"
  cs_MaxOutputTokens :: "int option"
  cs_BuiltInTools :: "string list"

text \<open>The upstream client events the gateway builds, and \<open>response.cancel\<close>, which the
  protocol package declares.\<close>

datatype RtClientEvent =
    SessionUpdateEvent RtClientEventBase ClientSession
  | InputAudioBufferAppendEvent RtClientEventBase string
  | ResponseCancelEvent RtClientEventBase

fun RtClientEventType :: "RtClientEvent \<Rightarrow> string" where
  "RtClientEventType (SessionUpdateEvent b s) = ClientEventTypeSessionUpdate"
| "RtClientEventType (InputAudioBufferAppendEvent b a) = ClientEventTypeInputAudioBufferAppend"
| "RtClientEventType (ResponseCancelEvent b) = ClientEventTypeResponseCancel"

text \<open>An interface value holding a pointer: nil, a nil pointer of a concrete type, or a
  pointer to a value. Only the first is equal to \<open>nil\<close>.\<close>

datatype 'a iface = NilInterface | TypedNil | Ptr 'a

subsection \<open>Server events\<close>

text \<open>The struct types of the upstream server events.\<close>

datatype ServerEventKind =
    ErrorEvent
  | SessionCreatedEvent
  | SessionUpdatedEvent
  | ConversationCreatedEvent
  | InputAudioBufferCommittedEvent
  | InputAudioBufferClearedEvent
  | InputAudioBufferSpeechStartedEvent
  | InputAudioBufferSpeechStoppedEvent
  | ConversationItemCreatedEvent
  | ConversationItemInputAudioTranscriptionCompletedEvent
  | ConversationItemInputAudioTranscriptionFailedEvent
  | ConversationItemTruncatedEvent
  | ConversationItemDeletedEvent
  | ResponseCancelledEvent
  | ResponseCreatedEvent
  | ResponseDoneEvent
  | ResponseOutputItemAddedEvent
  | ResponseOutputItemDoneEvent
  | ResponseContentPartAddedEvent
  | ResponseContentPartDoneEvent
  | ResponseTextDeltaEvent
  | ResponseTextDoneEvent
  | ResponseAudioTranscriptDeltaEvent
  | ResponseAudioTranscriptDoneEvent
  | ResponseAudioDeltaEvent
  | ResponseAudioDoneEvent
  | ResponseFunctionCallArgumentsDeltaEvent
  | ResponseFunctionCallArgumentsDoneEvent
  | RateLimitsUpdatedEvent

definition RtServerEventTypeError :: string where
  "RtServerEventTypeError = ''error''"
definition ServerEventTypeSessionCreated :: string where
  "ServerEventTypeSessionCreated = ''session.created''"
definition ServerEventTypeSessionUpdated :: string where
  "ServerEventTypeSessionUpdated = ''session.updated''"
definition ServerEventTypeConversationCreated :: string where
  "ServerEventTypeConversationCreated = ''conversation.created''"
definition ServerEventTypeInputAudioBufferCommitted :: string where
  "ServerEventTypeInputAudioBufferCommitted = ''input_audio_buffer.committed''"
definition ServerEventTypeInputAudioBufferCleared :: string where
  "ServerEventTypeInputAudioBufferCleared = ''input_audio_buffer.cleared''"
definition ServerEventTypeInputAudioBufferSpeechStarted :: string where
  "ServerEventTypeInputAudioBufferSpeechStarted = ''input_audio_buffer.speech_started''"
definition ServerEventTypeInputAudioBufferSpeechStopped :: string where
  "ServerEventTypeInputAudioBufferSpeechStopped = ''input_audio_buffer.speech_stopped''"
definition ServerEventTypeConversationItemCreated :: string where
  "ServerEventTypeConversationItemCreated = ''conversation.item.created''"
definition ServerEventTypeConversationItemInputAudioTranscriptionCompleted :: string where
  "ServerEventTypeConversationItemInputAudioTranscriptionCompleted =
     ''conversation.item.input_audio_transcription.completed''"
definition ServerEventTypeConversationItemInputAudioTranscriptionFailed :: string where
  "ServerEventTypeConversationItemInputAudioTranscriptionFailed =
     ''conversation.item.input_audio_transcription.failed''"
definition ServerEventTypeConversationItemTruncated :: string where
  "ServerEventTypeConversationItemTruncated = ''conversation.item.truncated''"
definition ServerEventTypeConversationItemDeleted :: string where
  "ServerEventTypeConversationItemDeleted = ''conversation.item.deleted''"
definition ServerEventTypeResponseCreated :: string where
  "ServerEventTypeResponseCreated = ''response.created''"
definition ServerEventTypeResponseCancelled :: string where
  "ServerEventTypeResponseCancelled = ''response.cancelled''"
definition ServerEventTypeResponseDone :: string where
  "ServerEventTypeResponseDone = ''response.done''"
definition ServerEventTypeResponseOutputItemAdded :: string where
  "ServerEventTypeResponseOutputItemAdded = ''response.output_item.added''"
definition ServerEventTypeResponseOutputItemDone :: string where
  "ServerEventTypeResponseOutputItemDone = ''response.output_item.done''"
definition ServerEventTypeResponseContentPartAdded :: string where
  "ServerEventTypeResponseContentPartAdded = ''response.content_part.added''"
definition ServerEventTypeResponseContentPartDone :: string where
  "ServerEventTypeResponseContentPartDone = ''response.content_part.done''"
definition ServerEventTypeResponseTextDelta :: string where
  "ServerEventTypeResponseTextDelta = ''response.text.delta''"
definition ServerEventTypeResponseTextDone :: string where
  "ServerEventTypeResponseTextDone = ''response.text.done''"
definition ServerEventTypeResponseAudioTranscriptDelta :: string where
  "ServerEventTypeResponseAudioTranscriptDelta = ''response.audio_transcript.delta''"
definition ServerEventTypeResponseAudioTranscriptDone :: string where
  "ServerEventTypeResponseAudioTranscriptDone = ''response.audio_transcript.done''"
definition ServerEventTypeResponseAudioDelta :: string where
  "ServerEventTypeResponseAudioDelta = ''response.audio.delta''"
definition ServerEventTypeResponseAudioDone :: string where
  "ServerEventTypeResponseAudioDone = ''response.audio.done''"
definition ServerEventTypeResponseFunctionCallArgumentsDelta :: string where
  "ServerEventTypeResponseFunctionCallArgumentsDelta = ''response.function_call_arguments.delta''"
definition ServerEventTypeResponseFunctionCallArgumentsDone :: string where
  "ServerEventTypeResponseFunctionCallArgumentsDone = ''response.function_call_arguments.done''"
definition ServerEventTypeRateLimitsUpdated :: string where
  "ServerEventTypeRateLimitsUpdated = ''rate_limits.updated''"

lemmas ServerEventType_defs =
  RtServerEventTypeError_def ServerEventTypeSessionCreated_def ServerEventTypeSessionUpdated_def
  ServerEventTypeConversationCreated_def ServerEventTypeInputAudioBufferCommitted_def
  ServerEventTypeInputAudioBufferCleared_def ServerEventTypeInputAudioBufferSpeechStarted_def
  ServerEventTypeInputAudioBufferSpeechStopped_def ServerEventTypeConversationItemCreated_def
  ServerEventTypeConversationItemInputAudioTranscriptionCompleted_def
  ServerEventTypeConversationItemInputAudioTranscriptionFailed_def
  ServerEventTypeConversationItemTruncated_def ServerEventTypeConversationItemDeleted_def
  ServerEventTypeResponseCreated_def ServerEventTypeResponseCancelled_def
  ServerEventTypeResponseDone_def ServerEventTypeResponseOutputItemAdded_def
  ServerEventTypeResponseOutputItemDone_def ServerEventTypeResponseContentPartAdded_def
  ServerEventTypeResponseContentPartDone_def ServerEventTypeResponseTextDelta_def
  ServerEventTypeResponseTextDone_def ServerEventTypeResponseAudioTranscriptDelta_def
  ServerEventTypeResponseAudioTranscriptDone_def ServerEventTypeResponseAudioDelta_def
  ServerEventTypeResponseAudioDone_def ServerEventTypeResponseFunctionCallArgumentsDelta_def
  ServerEventTypeResponseFunctionCallArgumentsDone_def ServerEventTypeRateLimitsUpdated_def

text \<open>
  An upstream server event: its struct type, the two fields of \<open>ServerEventBase\<close>, and the
  variant's own fields. The JSON text layer is the library's; a message on the wire is either
  not a JSON object, or an object with its \<open>type\<close> and \<open>event_id\<close> members (empty when absent)
  and the remaining members, which decode into the variant's fields as they are.
\<close>

record 'p RtServerEvent =
  kind :: ServerEventKind
  EventID :: string
  Type :: string
  payload :: 'p

datatype 'p wire = NotJson | JsonObject string string 'p

text \<open>The type tag each case of \<open>MarshalServerEvent\<close> passes to \<open>SetBaseEventType\<close>.\<close>

fun marshalTag :: "ServerEventKind \<Rightarrow> string" where
  "marshalTag ErrorEvent = RtServerEventTypeError"
| "marshalTag SessionCreatedEvent = ServerEventTypeSessionCreated"
| "marshalTag SessionUpdatedEvent = ServerEventTypeSessionUpdated"
| "marshalTag ConversationCreatedEvent = ServerEventTypeConversationCreated"
| "marshalTag InputAudioBufferCommittedEvent = ServerEventTypeInputAudioBufferCommitted"
| "marshalTag InputAudioBufferClearedEvent = ServerEventTypeInputAudioBufferCleared"
| "marshalTag InputAudioBufferSpeechStartedEvent = ServerEventTypeInputAudioBufferSpeechStarted"
| "marshalTag InputAudioBufferSpeechStoppedEvent = ServerEventTypeInputAudioBufferSpeechStopped"
| "marshalTag ConversationItemCreatedEvent = ServerEventTypeConversationItemCreated"
| "marshalTag ConversationItemInputAudioTranscriptionCompletedEvent =
     ServerEventTypeConversationItemInputAudioTranscriptionCompleted"
| "marshalTag ConversationItemInputAudioTranscriptionFailedEvent =
     ServerEventTypeConversationItemInputAudioTranscriptionFailed"
| "marshalTag ConversationItemTruncatedEvent = ServerEventTypeConversationItemTruncated"
| "marshalTag ConversationItemDeletedEvent = ServerEventTypeConversationItemDeleted"
| "marshalTag ResponseCancelledEvent = ServerEventTypeResponseCancelled"
| "marshalTag ResponseCreatedEvent = ServerEventTypeResponseCreated"
| "marshalTag ResponseDoneEvent = ServerEventTypeResponseDone"
| "marshalTag ResponseOutputItemAddedEvent = ServerEventTypeResponseOutputItemAdded"
| "marshalTag ResponseOutputItemDoneEvent = ServerEventTypeResponseOutputItemDone"
| "marshalTag ResponseContentPartAddedEvent = ServerEventTypeResponseContentPartAdded"
| "marshalTag ResponseContentPartDoneEvent = ServerEventTypeResponseContentPartDone"
| "marshalTag ResponseTextDeltaEvent = ServerEventTypeResponseTextDelta"
| "marshalTag ResponseTextDoneEvent = ServerEventTypeResponseTextDone"
| "marshalTag ResponseAudioTranscriptDeltaEvent = ServerEventTypeResponseAudioTranscriptDelta"
| "marshalTag ResponseAudioTranscriptDoneEvent = ServerEventTypeResponseAudioTranscriptDone"
| "marshalTag ResponseAudioDeltaEvent = ServerEventTypeResponseAudioDelta"
| "marshalTag ResponseAudioDoneEvent = ServerEventTypeResponseAudioDone"
| "marshalTag ResponseFunctionCallArgumentsDeltaEvent = ServerEventTypeResponseFunctionCallArgumentsDelta"
| "marshalTag ResponseFunctionCallArgumentsDoneEvent = ServerEventTypeResponseFunctionCallArgumentsDone"
| "marshalTag RateLimitsUpdatedEvent = ServerEventTypeRateLimitsUpdated"

text \<open>\<open>SetBaseEventType\<close>: set the type and, if the id is empty, stamp the fresh id \<open>uid\<close>
  (the result of \<open>utils.UniqueID()\<close>).\<close>

definition SetBaseEventType :: "string \<Rightarrow> string \<Rightarrow> 'p RtServerEvent \<Rightarrow> 'p RtServerEvent" where
  "SetBaseEventType uid t m =
     (let m1 = m\<lparr> Type := t \<rparr>
      in if EventID m1 = [] then m1\<lparr> EventID := uid \<rparr> else m1)"

text \<open>\<open>MarshalServerEvent\<close> returns the bytes and leaves the event modified; every struct type
  of the union has a case, so the default branch is never taken.\<close>

definition MarshalServerEvent :: "string \<Rightarrow> 'p RtServerEvent \<Rightarrow> (error + 'p wire) \<times> 'p RtServerEvent" where
  "MarshalServerEvent uid event =
     (let ev = SetBaseEventType uid (marshalTag (kind event)) event
      in (Inr (JsonObject (Type ev) (EventID ev) (payload ev)), ev))"

text \<open>The cases of the switch of \<open>UnmarshalServerEvent\<close>, in the order of the source.\<close>

definition unmarshalCases :: "(string \<times> ServerEventKind) list" where
  "unmarshalCases =
     [(RtServerEventTypeError, ErrorEvent),
      (ServerEventTypeSessionCreated, SessionCreatedEvent),
      (ServerEventTypeSessionUpdated, SessionUpdatedEvent),
      (ServerEventTypeConversationCreated, ConversationCreatedEvent),
      (ServerEventTypeInputAudioBufferCommitted, InputAudioBufferCommittedEvent),
      (ServerEventTypeInputAudioBufferCleared, InputAudioBufferClearedEvent),
      (ServerEventTypeInputAudioBufferSpeechStarted, InputAudioBufferSpeechStartedEvent),
      (ServerEventTypeInputAudioBufferSpeechStopped, InputAudioBufferSpeechStoppedEvent),
      (ServerEventTypeConversationItemCreated, ConversationItemCreatedEvent),
      (ServerEventTypeConversationItemInputAudioTranscriptionCompleted,
         ConversationItemInputAudioTranscriptionCompletedEvent),
      (ServerEventTypeConversationItemInputAudioTranscriptionFailed,
         ConversationItemInputAudioTranscriptionFailedEvent),
      (ServerEventTypeConversationItemTruncated, ConversationItemTruncatedEvent),
      (ServerEventTypeConversationItemDeleted, ConversationItemDeletedEvent),
      (ServerEventTypeResponseCreated, ResponseCreatedEvent),
      (ServerEventTypeResponseDone, ResponseDoneEvent),
      (ServerEventTypeResponseOutputItemAdded, ResponseOutputItemAddedEvent),
      (ServerEventTypeResponseOutputItemDone, ResponseOutputItemDoneEvent),
      (ServerEventTypeResponseContentPartAdded, ResponseContentPartAddedEvent),
      (ServerEventTypeResponseContentPartDone, ResponseContentPartDoneEvent),
      (ServerEventTypeResponseTextDelta, ResponseTextDeltaEvent),
      (ServerEventTypeResponseTextDone, ResponseTextDoneEvent),
      (ServerEventTypeResponseAudioTranscriptDelta, ResponseAudioTranscriptDeltaEvent),
      (ServerEventTypeResponseAudioTranscriptDone, ResponseAudioTranscriptDoneEvent),
      (ServerEventTypeResponseAudioDelta, ResponseAudioDeltaEvent),
      (ServerEventTypeResponseAudioDone, ResponseAudioDoneEvent),
      (ServerEventTypeResponseFunctionCallArgumentsDelta, ResponseFunctionCallArgumentsDeltaEvent),
      (ServerEventTypeResponseFunctionCallArgumentsDone, ResponseFunctionCallArgumentsDoneEvent),
      (ServerEventTypeRateLimitsUpdated, RateLimitsUpdatedEvent)]"

definition UnmarshalServerEvent :: "'p wire \<Rightarrow> error + 'p RtServerEvent" where
  "UnmarshalServerEvent data =
     (case data of
        NotJson \<Rightarrow> Inl JsonSyntaxError
      | JsonObject ty eid f \<Rightarrow>
          (case map_of unmarshalCases ty of
             Some k \<Rightarrow> Inr \<lparr> kind = k, EventID = eid, Type = ty, payload = f \<rparr>
           | None \<Rightarrow> Inl (UnknownServerEventType ty)))"

section \<open>Translator\<close>

subsection \<open>Session and handler state\<close>

record Config =
  cfg_SystemPrompt :: string
  cfg_Model :: string
  cfg_Voice :: string
  cfg_Transport :: string

record RtError =
  er_Message :: string
  er_Type :: string
  er_Code :: string
  er_Param :: string
  er_EventID :: string

record ServerSession =
  ss_ID :: string
  ss_Object :: string
  ss_Model :: string
  ss_Instructions :: string
  ss_Voice :: string

record MessageContentPart =
  mcp_Type :: string
  mcp_Text :: "string option"
  mcp_Audio :: "string option"
  mcp_Transcript :: "string option"
  mcp_RawText :: "string option"

text \<open>The fields of the upstream server events that the translator reads; an event carries
  the ones of its variant, the others are at their zero value.\<close>

record RtFields =
  rf_Error :: RtError
  rf_Session :: ServerSession
  rf_Transcript :: string
  rf_Delta :: string
  rf_Part :: MessageContentPart

record ClientConfig =
  cc_Format :: string
  cc_SampleRate :: int
  cc_Channels :: int
  cc_FrameDuration :: int
  cc_FrameSize :: int

record ApiSession =
  CliConfig :: "ClientConfig option"
  defaultVoice :: string
  modelId :: string
  ID :: string
  Object :: string
  RtSession :: "ServerSession option"

text \<open>
  The handler. The upstream connection is the list of client events written to it and,
  when writes fail, the message of their error; \<open>slept\<close> lists the durations (in nanoseconds) passed to
  \<open>time.Sleep\<close>. The session pointer is set by the constructor and never nil.
\<close>

record 'e XiaozhiHandler =
  sess :: ApiSession
  closed :: bool
  writeQueue :: "QueueItem list"
  audioConverter :: "'e Converter option"
  firstDeltaTs :: int64
  totalOpusDuration :: int64
  apiSent :: "RtClientEvent list"
  apiBroken :: "string option"
  slept :: "int64 list"

text \<open>What the handler takes from outside: the arithmetic, the codec, the configuration,
  the JSON text of an upstream error (\<open>utils.MustToJSON\<close>) and the JSON decoding of a device
  text message.\<close>

record ('f, 'e) env =
  env_fp :: "'f float64_ops"
  env_opus :: "'e opus_codec"
  env_cfg :: Config
  env_toJSON :: "RtError \<Rightarrow> string"
  env_UnmarshalClientEvent :: "byte list \<Rightarrow> error + ClientEvent"

definition ObjectRealtimeSession :: string where
  "ObjectRealtimeSession = ''realtime.session''"

definition NewApiSession :: "Config \<Rightarrow> string \<Rightarrow> ApiSession" where
  "NewApiSession cfg model =
     \<lparr> CliConfig = None, defaultVoice = cfg_Voice cfg, modelId = model, ID = [],
       Object = ObjectRealtimeSession, RtSession = None \<rparr>"

definition NewXiaozhiHandler :: "Config \<Rightarrow> 'e XiaozhiHandler" where
  "NewXiaozhiHandler cfg =
     \<lparr> sess = NewApiSession cfg (cfg_Model cfg), closed = False, writeQueue = [],
       audioConverter = None, firstDeltaTs = 0, totalOpusDuration = 0,
       apiSent = [], apiBroken = None, slept = [] \<rparr>"

definition GetSessionId :: "'e XiaozhiHandler \<Rightarrow> string" where
  "GetSessionId r = ID (sess r)"

subsection \<open>Pacing clock\<close>

definition resetFrameTs :: "'e XiaozhiHandler \<Rightarrow> 'e XiaozhiHandler" where
  "resetFrameTs r = r\<lparr> firstDeltaTs := 0, totalOpusDuration := 0 \<rparr>"

definition setFrameTs :: "int64 \<Rightarrow> 'e XiaozhiHandler \<Rightarrow> 'e XiaozhiHandler" where
  "setFrameTs now r = (if firstDeltaTs r \<noteq> 0 then r else r\<lparr> firstDeltaTs := now \<rparr>)"

text \<open>\<open>getWait\<close> with the clock reading \<open>now\<close> (\<open>time.Now().UnixMilli()\<close>).\<close>

definition getWait :: "int64 \<Rightarrow> 'e XiaozhiHandler \<Rightarrow> int64" where
  "getWait now r =
     (if firstDeltaTs r = 0 then 0
      else if totalOpusDuration r = 0 then 0
      else let wait = totalOpusDuration r - (now - firstDeltaTs r)
           in if 0 <s wait then wait else 0)"

definition addOpusDuration :: "'e XiaozhiHandler \<Rightarrow> 'e XiaozhiHandler result" where
  "addOpusDuration r =
     (case CliConfig (sess r) of
        None \<Rightarrow> Panic NilPointerDereference
      | Some cc \<Rightarrow> Ok (r\<lparr> totalOpusDuration := totalOpusDuration r + word_of_int (cc_FrameDuration cc) \<rparr>))"

subsection \<open>Write queue\<close>

text \<open>\<open>WriteRespEvent\<close>: every device event is a server event; anything else is a compressed
  frame and advances the pacing clock. A send on the queue waits for room and then appends.\<close>

definition WriteRespEvent :: "'e XiaozhiHandler \<Rightarrow> QueueItem \<Rightarrow> error option result \<times> 'e XiaozhiHandler" where
  "WriteRespEvent w event =
     (if closed w then (Ok (Some WriteQueueClosed), w)
      else case event of
             QEvent ev \<Rightarrow> (Ok None, w\<lparr> writeQueue := writeQueue w @ [event] \<rparr>)
           | QFrame f \<Rightarrow>
               (case addOpusDuration w of
                  Ok w1 \<Rightarrow> (Ok None, w1\<lparr> writeQueue := writeQueue w1 @ [event] \<rparr>)
                | Err e \<Rightarrow> (Err e, w)
                | Panic p \<Rightarrow> (Panic p, w)
                | Diverges \<Rightarrow> (Diverges, w)))"

text \<open>The emit callback the hello handler gives to the converter.\<close>

definition emitFrame :: "'e XiaozhiHandler \<Rightarrow> byte list \<Rightarrow> 'e XiaozhiHandler result" where
  "emitFrame w frame =
     (case WriteRespEvent w (QFrame frame) of
        (Ok e, w') \<Rightarrow> Ok w'
      | (Err e, w') \<Rightarrow> Err e
      | (Panic p, w') \<Rightarrow> Panic p
      | (Diverges, w') \<Rightarrow> Diverges)"

subsection \<open>Device to upstream\<close>

definition ModalityText :: string where "ModalityText = ''text''"
definition ModalityAudio :: string where "ModalityAudio = ''audio''"
definition AudioFormatPcm16 :: string where "AudioFormatPcm16 = ''pcm16''"
definition ToolChoiceRequired :: string where "ToolChoiceRequired = ''required''"
definition ClientTurnDetectionTypeServerVad :: string where
  "ClientTurnDetectionTypeServerVad = ''server_vad''"

definition handleHelloEvent ::
  "('f, 'e) env \<Rightarrow> 'e XiaozhiHandler \<Rightarrow> ClientEventBase \<Rightarrow> string
     \<Rightarrow> (RtClientEvent iface \<times> error option) result \<times> 'e XiaozhiHandler" where
  "handleHelloEvent env r event eventID =
     (case ce_AudioParams event of
        None \<Rightarrow> (Ok (NilInterface, Some InvalidAudioParams), r)
      | Some ap \<Rightarrow>
          (if ap_SampleRate ap = 0 \<or> ap_Channels ap = 0 \<or> ap_Format ap = [] \<or> ap_FrameDuration ap = 0
           then (Ok (NilInterface, Some InvalidAudioParams), r)
           else
             let frameSize = wrap64 (ap_FrameDuration ap * ap_SampleRate ap) sdiv 1000
             in case NewConverter (env_opus env) (ap_SampleRate ap) (ap_Channels ap)
                       (ap_FrameDuration ap) frameSize of
                  Ok conv \<Rightarrow>
                    (let r1 = r\<lparr> audioConverter := Some conv \<rparr>;
                         r2 = r1\<lparr> sess := (sess r1)\<lparr> CliConfig := Some
                                 \<lparr> cc_Format = ap_Format ap, cc_SampleRate = ap_SampleRate ap,
                                   cc_Channels = ap_Channels ap,
                                   cc_FrameDuration = ap_FrameDuration ap,
                                   cc_FrameSize = frameSize \<rparr> \<rparr> \<rparr>;
                         pbEvent = SessionUpdateEvent
                           \<lparr> rce_EventID = eventID, rce_Type = ClientEventTypeSessionUpdate \<rparr>
                           \<lparr> cs_Modalities = [ModalityText, ModalityAudio],
                             cs_Instructions = Some (cfg_SystemPrompt (env_cfg env)),
                             cs_Voice = Some (defaultVoice (sess r2)),
                             cs_InputAudioFormat = Some AudioFormatPcm16,
                             cs_OutputAudioFormat = Some AudioFormatPcm16,
                             cs_TurnDetection = Some \<lparr> td_Type = ClientTurnDetectionTypeServerVad \<rparr>,
                             cs_ToolChoice = Some ToolChoiceRequired,
                             cs_MaxOutputTokens = Some 4096,
                             cs_BuiltInTools = [''web_search''] \<rparr>
                     in (Ok (Ptr pbEvent, None), r2))
                | Err e \<Rightarrow> (Err e, r)
                | Panic p \<Rightarrow> (Panic p, r)
                | Diverges \<Rightarrow> (Diverges, r)))"

definition handleListenEvent ::
  "'e XiaozhiHandler \<Rightarrow> (RtClientEvent iface \<times> error option) result \<times> 'e XiaozhiHandler" where
  "handleListenEvent r = (Ok (NilInterface, None), r)"

definition handleIotEvent ::
  "'e XiaozhiHandler \<Rightarrow> (RtClientEvent iface \<times> error option) result \<times> 'e XiaozhiHandler" where
  "handleIotEvent r = (Ok (NilInterface, None), r)"

text \<open>\<open>handleInputAudioBufferAppend\<close> returns a pointer of a concrete type; stored in the
  interface variable of the dispatcher, its nil is a typed nil.\<close>

definition handleInputAudioBufferAppend ::
  "('f, 'e) env \<Rightarrow> 'e XiaozhiHandler \<Rightarrow> byte list \<Rightarrow> string
     \<Rightarrow> (RtClientEvent iface \<times> error option) result \<times> 'e XiaozhiHandler" where
  "handleInputAudioBufferAppend env r audioData eventID =
     (if length audioData = 0 then (Ok (TypedNil, None), r)
      else case OpusToPcmBase64 (env_fp env) (env_opus env) (audioConverter r) audioData of
             (out, c) \<Rightarrow>
               (let r1 = r\<lparr> audioConverter := c \<rparr>
                in case out of
                     Ok b64Data \<Rightarrow>
                       (Ok (Ptr (InputAudioBufferAppendEvent
                                   \<lparr> rce_EventID = eventID,
                                     rce_Type = ClientEventTypeInputAudioBufferAppend \<rparr> b64Data),
                            None), r1)
                   | Err e \<Rightarrow> (Ok (TypedNil, Some e), r1)
                   | Panic p \<Rightarrow> (Panic p, r1)
                   | Diverges \<Rightarrow> (Diverges, r1)))"

text \<open>\<open>SendToRealtimeAPI\<close>: asking a typed nil for its event type is a call of a value method
  through a nil pointer.\<close>

definition SendToRealtimeAPI ::
  "'e XiaozhiHandler \<Rightarrow> RtClientEvent iface \<Rightarrow> error option result \<times> 'e XiaozhiHandler" where
  "SendToRealtimeAPI w event =
     (case event of
        NilInterface \<Rightarrow> (Ok None, w)
      | TypedNil \<Rightarrow> (Panic NilPointerDereference, w)
      | Ptr ev \<Rightarrow>
          (case apiBroken w of
             Some msg \<Rightarrow> (Ok (Some (ConnectionWriteFailed msg)), w)
           | None \<Rightarrow> (Ok None, w\<lparr> apiSent := apiSent w @ [ev] \<rparr>)))"

text \<open>
  \<open>DispatchClientEvent\<close>. The argument is \<open>None\<close> when the value is not a device event. The
  deferred function recovers every panic; the results are unnamed, so the call then returns
  \<open>(nil, false)\<close>. The switch has no case for the abort event.
\<close>

definition DispatchClientEvent ::
  "('f, 'e) env \<Rightarrow> 'e XiaozhiHandler \<Rightarrow> ClientEvent option \<Rightarrow> string
     \<Rightarrow> (error option \<times> bool) result \<times> 'e XiaozhiHandler" where
  "DispatchClientEvent env r ev eventID =
     (case ev of
        None \<Rightarrow> (Ok (Some InvalidRealtimeClientEvent, False), r)
      | Some (ClientEventAbort b reason) \<Rightarrow> (Ok (None, False), r)
      | Some event \<Rightarrow>
          (case (case event of
                   ClientEventHello b \<Rightarrow> handleHelloEvent env r b eventID
                 | ClientEventListen b st md \<Rightarrow> handleListenEvent r
                 | ClientEventAppendBuffer b bs \<Rightarrow> handleInputAudioBufferAppend env r bs eventID
                 | ClientEventIot b d \<Rightarrow> handleIotEvent r
                 | ClientEventAbort b reason \<Rightarrow> (Ok (NilInterface, None), r)) of
             (Ok (rtEvent, err), r1) \<Rightarrow>
               (if rtEvent = NilInterface \<or> err \<noteq> None then (Ok (err, False), r1)
                else case SendToRealtimeAPI r1 rtEvent of
                       (Ok (Some e), r2) \<Rightarrow> (Ok (Some e, False), r2)
                     | (Ok None, r2) \<Rightarrow> (Ok (None, False), r2)
                     | (Diverges, r2) \<Rightarrow> (Diverges, r2)
                     | (out, r2) \<Rightarrow> (Ok (None, False), r2))
           | (Diverges, r1) \<Rightarrow> (Diverges, r1)
           | (out, r1) \<Rightarrow> (Ok (None, False), r1)))"

subsection \<open>The read loop of the connection\<close>

datatype Message = TextMessage "byte list" | BinaryMessage "byte list"

text \<open>The device connection: the handler, the events written to the socket directly (not
  through the write queue) and whether the read loop has ended.\<close>

record 'e ConnWrapper =
  handler :: "'e XiaozhiHandler"
  connWritten :: "ServerEvent list"
  readLoopDone :: bool

definition BuildErrorEvent :: "error \<Rightarrow> ServerEvent" where
  "BuildErrorEvent err =
     ServerEventError \<lparr> se_Type = ServerEventTypeError, se_SessionId = [] \<rparr> (ErrorText err)"

text \<open>One round of \<open>ReadLoop\<close> on a message read from the device.\<close>

definition ReadLoopStep ::
  "('f, 'e) env \<Rightarrow> 'e ConnWrapper \<Rightarrow> Message \<Rightarrow> string \<Rightarrow> 'e ConnWrapper result" where
  "ReadLoopStep env w msg eventID =
     (case (case msg of
              TextMessage m \<Rightarrow> env_UnmarshalClientEvent env m
            | BinaryMessage m \<Rightarrow> Inr (UnmarshalClientBinEvent m)) of
        Inl e \<Rightarrow> Ok (w\<lparr> connWritten := connWritten w @ [BuildErrorEvent InvalidEventFormat] \<rparr>)
      | Inr event \<Rightarrow>
          (case DispatchClientEvent env (handler w) (Some event) eventID of
             (Ok (err, quit), h) \<Rightarrow>
               (let w1 = w\<lparr> handler := h \<rparr>;
                    w2 = (case err of
                            None \<Rightarrow> w1
                          | Some e \<Rightarrow> w1\<lparr> connWritten := connWritten w1 @ [BuildErrorEvent e] \<rparr>)
                in Ok (if quit then w2\<lparr> readLoopDone := True \<rparr> else w2))
           | (Err e, h) \<Rightarrow> Err e
           | (Panic p, h) \<Rightarrow> Panic p
           | (Diverges, h) \<Rightarrow> Diverges))"

subsection \<open>Upstream to device\<close>

type_synonym 'e handled = "(ServerEvent option \<times> error option) result \<times> 'e XiaozhiHandler"

definition tts :: "'e XiaozhiHandler \<Rightarrow> string \<Rightarrow> string \<Rightarrow> ServerEvent" where
  "tts w state text =
     ServerEventTTS \<lparr> se_Type = ServerEventTypeTTS, se_SessionId = GetSessionId w \<rparr> state text 0"

definition handleServerError :: "('f, 'e) env \<Rightarrow> 'e XiaozhiHandler \<Rightarrow> RtFields RtServerEvent \<Rightarrow> 'e handled" where
  "handleServerError env w event =
     (if kind event \<noteq> ErrorEvent then (Panic InterfaceConversion, w)
      else (Ok (Some (ServerEventError
                        \<lparr> se_Type = ServerEventTypeError, se_SessionId = GetSessionId w \<rparr>
                        (env_toJSON env (rf_Error (payload event)))), None), w))"

definition Update :: "ApiSession \<Rightarrow> ServerSession \<Rightarrow> ApiSession" where
  "Update s ss = s\<lparr> RtSession := Some ss, ID := ss_ID ss \<rparr>"

definition handleSessionCreateOrUpdate ::
  "('f, 'e) env \<Rightarrow> 'e XiaozhiHandler \<Rightarrow> RtFields RtServerEvent \<Rightarrow> bool \<Rightarrow> 'e handled" where
  "handleSessionCreateOrUpdate env w event update =
     (if update then
        (if kind event \<noteq> SessionUpdatedEvent then (Panic InterfaceConversion, w)
         else
           let w1 = w\<lparr> sess := Update (sess w) (rf_Session (payload event)) \<rparr>
           in case CliConfig (sess w1) of
                None \<Rightarrow> (Panic NilPointerDereference, w1)
              | Some cc \<Rightarrow>
                  (Ok (Some (ServerEventHello
                               \<lparr> se_Type = ServerEventTypeHello, se_SessionId = GetSessionId w1 \<rparr>
                               (cfg_Transport (env_cfg env))
                               \<lparr> ap_Format = cc_Format cc, ap_SampleRate = 24000,
                                 ap_Channels = 1, ap_FrameDuration = 60 \<rparr>), None), w1))
      else
        (if kind event \<noteq> SessionCreatedEvent then (Panic InterfaceConversion, w)
         else (Ok (None, None), w\<lparr> sess := Update (sess w) (rf_Session (payload event)) \<rparr>)))"

definition handleInputAudioBufferCommitted :: "'e XiaozhiHandler \<Rightarrow> 'e handled" where
  "handleInputAudioBufferCommitted w = (Ok (Some (tts w ServerTTSStateStart []), None), w)"

text \<open>The handlers that do nothing: input audio buffer cleared, speech started, speech
  stopped, response created, content part added, output item done, conversation item created,
  audio transcript delta, audio done.\<close>

definition handleNothing :: "'e XiaozhiHandler \<Rightarrow> 'e handled" where
  "handleNothing w = (Ok (None, None), w)"

text \<open>The rune literal of \<open>handleAsrDone\<close>, U+1F60A.\<close>

definition smilingFace :: int where
  "smilingFace = 0x1F60A"

definition handleAsrDone :: "'e XiaozhiHandler \<Rightarrow> RtFields RtServerEvent \<Rightarrow> 'e handled" where
  "handleAsrDone w event =
     (if kind event \<noteq> ConversationItemInputAudioTranscriptionCompletedEvent
      then (Panic InterfaceConversion, w)
      else
        let sttEvent = ServerEventSTT
              \<lparr> se_Type = ServerEventTypeSTT, se_SessionId = GetSessionId w \<rparr>
              (rf_Transcript (payload event));
            w1 = snd (WriteRespEvent w (QEvent sttEvent));
            llmEvent = ServerEventLLM
              \<lparr> se_Type = ServerEventTypeLLM, se_SessionId = GetSessionId w1 \<rparr>
              (Itoa smilingFace) ''happy'';
            w2 = snd (WriteRespEvent w1 (QEvent llmEvent))
        in (Ok (None, None), w2))"

definition FromPtr :: "string option \<Rightarrow> string" where
  "FromPtr p = (case p of None \<Rightarrow> [] | Some x \<Rightarrow> x)"

definition handleContentPartDone :: "'e XiaozhiHandler \<Rightarrow> RtFields RtServerEvent \<Rightarrow> 'e handled" where
  "handleContentPartDone w event =
     (if kind event \<noteq> ResponseContentPartDoneEvent then (Panic InterfaceConversion, w)
      else (Ok (Some (tts w ServerTTSStateSentenceEnd
                        (FromPtr (mcp_Transcript (rf_Part (payload event))))), None), w))"

text \<open>
  \<open>handleResponseDone\<close> reads the clock once to decide whether to sleep (\<open>now1\<close>) and once more
  for the duration (\<open>now2\<close>). \<open>time.Duration(ms) * time.Millisecond\<close> is a 64-bit product.
\<close>

definition Millisecond :: int64 where
  "Millisecond = 1000000"

definition handleResponseDone :: "'e XiaozhiHandler \<Rightarrow> int64 \<Rightarrow> int64 \<Rightarrow> 'e handled" where
  "handleResponseDone w now1 now2 =
     (let w1 = (if 0 <s getWait now1 w then w\<lparr> slept := slept w @ [getWait now2 w * Millisecond] \<rparr>
                else w);
          w2 = resetFrameTs w1
      in (Ok (Some (tts w2 ServerTTSStateStop []), None), w2))"

definition handleResponseAudioTranscriptDone :: "'e XiaozhiHandler \<Rightarrow> RtFields RtServerEvent \<Rightarrow> 'e handled" where
  "handleResponseAudioTranscriptDone w event =
     (if kind event \<noteq> ResponseAudioTranscriptDoneEvent then (Panic InterfaceConversion, w)
      else (Ok (Some (tts w ServerTTSStateSentenceStart (rf_Transcript (payload event))), None), w))"

definition handleAudioDelta ::
  "('f, 'e) env \<Rightarrow> 'e XiaozhiHandler \<Rightarrow> RtFields RtServerEvent \<Rightarrow> int64 \<Rightarrow> 'e handled" where
  "handleAudioDelta env w event now =
     (if kind event \<noteq> ResponseAudioDeltaEvent then (Panic InterfaceConversion, w)
      else
        let w1 = setFrameTs now w
        in case ResolvePCM (env_opus env) emitFrame (audioConverter w1) (rf_Delta (payload event)) w1 of
             (out, c, w2) \<Rightarrow>
               (let w3 = w2\<lparr> audioConverter := c \<rparr>
                in case out of
                     Ok u \<Rightarrow> (Ok (None, None), w3)
                   | Err e \<Rightarrow> (Ok (None, Some e), w3)
                   | Panic p \<Rightarrow> (Panic p, w3)
                   | Diverges \<Rightarrow> (Diverges, w3)))"

text \<open>
  \<open>handleRealtimeApiEvent\<close> on one upstream message, with the clock readings the call may
  take. The switch is on the type field; the handlers assert the struct type. The error a
  handler returns is dropped.
\<close>

definition handleRealtimeApiEvent ::
  "('f, 'e) env \<Rightarrow> 'e XiaozhiHandler \<Rightarrow> RtFields wire \<Rightarrow> int64 \<Rightarrow> int64
     \<Rightarrow> unit result \<times> 'e XiaozhiHandler" where
  "handleRealtimeApiEvent env w p now1 now2 =
     (case UnmarshalServerEvent p of
        Inl e \<Rightarrow> (Err e, w)
      | Inr event \<Rightarrow>
          (let t = Type event
           in case (if t = RtServerEventTypeError then handleServerError env w event
                    else if t = ServerEventTypeSessionCreated then handleSessionCreateOrUpdate env w event False
                    else if t = ServerEventTypeSessionUpdated then handleSessionCreateOrUpdate env w event True
                    else if t = ServerEventTypeInputAudioBufferCommitted then handleInputAudioBufferCommitted w
                    else if t = ServerEventTypeInputAudioBufferCleared then handleNothing w
                    else if t = ServerEventTypeInputAudioBufferSpeechStarted then handleNothing w
                    else if t = ServerEventTypeInputAudioBufferSpeechStopped then handleNothing w
                    else if t = ServerEventTypeResponseCreated then handleNothing w
                    else if t = ServerEventTypeResponseContentPartAdded then handleNothing w
                    else if t = ServerEventTypeConversationItemInputAudioTranscriptionCompleted
                      then handleAsrDone w event
                    else if t = ServerEventTypeResponseAudioTranscriptDelta then handleNothing w
                    else if t = ServerEventTypeResponseAudioTranscriptDone
                      then handleResponseAudioTranscriptDone w event
                    else if t = ServerEventTypeResponseAudioDelta then handleAudioDelta env w event now1
                    else if t = ServerEventTypeResponseAudioDone then handleNothing w
                    else if t = ServerEventTypeResponseContentPartDone then handleContentPartDone w event
                    else if t = ServerEventTypeResponseDone then handleResponseDone w now1 now2
                    else if t = ServerEventTypeResponseOutputItemDone then handleNothing w
                    else if t = ServerEventTypeConversationItemCreated then handleNothing w
                    else (Ok (None, None), w)) of
                (Ok (Some ev, err), w1) \<Rightarrow>
                  (case WriteRespEvent w1 (QEvent ev) of
                     (Ok e, w2) \<Rightarrow> (Ok (), w2)
                   | (Err e, w2) \<Rightarrow> (Err e, w2)
                   | (Panic q, w2) \<Rightarrow> (Panic q, w2)
                   | (Diverges, w2) \<Rightarrow> (Diverges, w2))
              | (Ok (None, err), w1) \<Rightarrow> (Ok (), w1)
              | (Err e, w1) \<Rightarrow> (Err e, w1)
              | (Panic q, w1) \<Rightarrow> (Panic q, w1)
              | (Diverges, w1) \<Rightarrow> (Diverges, w1)))"

section \<open>Tool choice\<close>

subsection \<open>The JSON scanner of the library\<close>

text \<open>
  \<open>json.Unmarshal\<close> first runs the library's scanner over the whole input (\<open>checkValid\<close>) and
  changes nothing when the input is not one JSON value. The scanner is a state machine fed
  byte by byte; the model follows the library's states. JSON text is a \<open>string\<close>: a list of
  bytes.
\<close>

datatype scanStep =
    BeginValue | BeginValueOrEmpty | BeginStringOrEmpty | BeginString | EndValue | EndTop
  | InString | InStringEsc | InStringEscU | InStringEscU1 | InStringEscU12 | InStringEscU123
  | Neg | Num1 | Num0 | Dot | Dot0 | NumE | NumESign | NumE0
  | LitT | LitTr | LitTru | LitF | LitFa | LitFal | LitFals | LitN | LitNu | LitNul
  | ScanError

datatype parseState = parseObjectKey | parseObjectValue | parseArrayValue

record scanner =
  step :: scanStep
  parseStack :: "parseState list"
  endTop :: bool
  scanErr :: bool

definition maxNestingDepth :: nat where
  "maxNestingDepth = 10000"

definition scanReset :: scanner where
  "scanReset = \<lparr> step = BeginValue, parseStack = [], endTop = False, scanErr = False \<rparr>"

definition scanFail :: "scanner \<Rightarrow> scanner" where
  "scanFail s = s\<lparr> step := ScanError, scanErr := True \<rparr>"

definition isSpace :: "char \<Rightarrow> bool" where
  "isSpace c = (c = CHR '' '' \<or> c = CHR 0x09 \<or> c = CHR 0x0D \<or> c = CHR 0x0A)"

definition isDigit :: "char \<Rightarrow> bool" where
  "isDigit c = (c \<in> set ''0123456789'')"

definition isHex :: "char \<Rightarrow> bool" where
  "isHex c = (c \<in> set ''0123456789abcdefABCDEF'')"

text \<open>The parse stack has its top at the head.\<close>

definition pushParseState :: "scanner \<Rightarrow> parseState \<Rightarrow> scanner" where
  "pushParseState s newParseState =
     (let s1 = s\<lparr> parseStack := newParseState # parseStack s \<rparr>
      in if length (parseStack s1) \<le> maxNestingDepth then s1 else scanFail s1)"

definition popParseState :: "scanner \<Rightarrow> scanner" where
  "popParseState s =
     (let s1 = s\<lparr> parseStack := tl (parseStack s) \<rparr>
      in if parseStack s1 = [] then s1\<lparr> step := EndTop, endTop := True \<rparr>
         else s1\<lparr> step := EndValue \<rparr>)"

definition stateEndTop :: "scanner \<Rightarrow> char \<Rightarrow> scanner" where
  "stateEndTop s c = (if \<not> isSpace c then scanFail s else s)"

definition stateEndValue :: "scanner \<Rightarrow> char \<Rightarrow> scanner" where
  "stateEndValue s c =
     (case parseStack s of
        [] \<Rightarrow> stateEndTop (s\<lparr> step := EndTop, endTop := True \<rparr>) c
      | ps # below \<Rightarrow>
          (if isSpace c then s\<lparr> step := EndValue \<rparr>
           else case ps of
                  parseObjectKey \<Rightarrow>
                    (if c = CHR '':'' then s\<lparr> parseStack := parseObjectValue # below, step := BeginValue \<rparr>
                     else scanFail s)
                | parseObjectValue \<Rightarrow>
                    (if c = CHR '','' then s\<lparr> parseStack := parseObjectKey # below, step := BeginString \<rparr>
                     else if c = CHR ''}'' then popParseState s
                     else scanFail s)
                | parseArrayValue \<Rightarrow>
                    (if c = CHR '','' then s\<lparr> step := BeginValue \<rparr>
                     else if c = CHR '']'' then popParseState s
                     else scanFail s)))"

definition stateBeginValue :: "scanner \<Rightarrow> char \<Rightarrow> scanner" where
  "stateBeginValue s c =
     (if isSpace c then s
      else if c = CHR ''{'' then pushParseState (s\<lparr> step := BeginStringOrEmpty \<rparr>) parseObjectKey
      else if c = CHR ''['' then pushParseState (s\<lparr> step := BeginValueOrEmpty \<rparr>) parseArrayValue
      else if c = CHR 0x22 then s\<lparr> step := InString \<rparr>
      else if c = CHR ''-'' then s\<lparr> step := Neg \<rparr>
      else if c = CHR ''0'' then s\<lparr> step := Num0 \<rparr>
      else if c = CHR ''t'' then s\<lparr> step := LitT \<rparr>
      else if c = CHR ''f'' then s\<lparr> step := LitF \<rparr>
      else if c = CHR ''n'' then s\<lparr> step := LitN \<rparr>
      else if isDigit c then s\<lparr> step := Num1 \<rparr>
      else scanFail s)"

definition stateBeginString :: "scanner \<Rightarrow> char \<Rightarrow> scanner" where
  "stateBeginString s c =
     (if isSpace c then s
      else if c = CHR 0x22 then s\<lparr> step := InString \<rparr>
      else scanFail s)"

definition state0 :: "scanner \<Rightarrow> char \<Rightarrow> scanner" where
  "state0 s c =
     (if c = CHR ''.'' then s\<lparr> step := Dot \<rparr>
      else if c = CHR ''e'' \<or> c = CHR ''E'' then s\<lparr> step := NumE \<rparr>
      else stateEndValue s c)"

definition stateESign :: "scanner \<Rightarrow> char \<Rightarrow> scanner" where
  "stateESign s c = (if isDigit c then s\<lparr> step := NumE0 \<rparr> else scanFail s)"

definition expect :: "scanner \<Rightarrow> char \<Rightarrow> char \<Rightarrow> scanStep \<Rightarrow> scanner" where
  "expect s c wanted next = (if c = wanted then s\<lparr> step := next \<rparr> else scanFail s)"

definition scanByte :: "scanner \<Rightarrow> char \<Rightarrow> scanner" where
  "scanByte s c =
     (case step s of
        BeginValue \<Rightarrow> stateBeginValue s c
      | BeginValueOrEmpty \<Rightarrow>
          (if isSpace c then s
           else if c = CHR '']'' then stateEndValue s c
           else stateBeginValue s c)
      | BeginStringOrEmpty \<Rightarrow>
          (if isSpace c then s
           else if c = CHR ''}'' then
             stateEndValue (s\<lparr> parseStack := parseObjectValue # tl (parseStack s) \<rparr>) c
           else stateBeginString s c)
      | BeginString \<Rightarrow> stateBeginString s c
      | EndValue \<Rightarrow> stateEndValue s c
      | EndTop \<Rightarrow> stateEndTop s c
      | InString \<Rightarrow>
          (if c = CHR 0x22 then s\<lparr> step := EndValue \<rparr>
           else if c = CHR 0x5C then s\<lparr> step := InStringEsc \<rparr>
           else if (of_char c :: nat) < 0x20 then scanFail s
           else s)
      | InStringEsc \<Rightarrow>
          (if c \<in> set ''bfnrt/'' \<or> c = CHR 0x5C \<or> c = CHR 0x22 then s\<lparr> step := InString \<rparr>
           else if c = CHR ''u'' then s\<lparr> step := InStringEscU \<rparr>
           else scanFail s)
      | InStringEscU \<Rightarrow> (if isHex c then s\<lparr> step := InStringEscU1 \<rparr> else scanFail s)
      | InStringEscU1 \<Rightarrow> (if isHex c then s\<lparr> step := InStringEscU12 \<rparr> else scanFail s)
      | InStringEscU12 \<Rightarrow> (if isHex c then s\<lparr> step := InStringEscU123 \<rparr> else scanFail s)
      | InStringEscU123 \<Rightarrow> (if isHex c then s\<lparr> step := InString \<rparr> else scanFail s)
      | Neg \<Rightarrow>
          (if c = CHR ''0'' then s\<lparr> step := Num0 \<rparr>
           else if isDigit c then s\<lparr> step := Num1 \<rparr>
           else scanFail s)
      | Num1 \<Rightarrow> (if isDigit c then s\<lparr> step := Num1 \<rparr> else state0 s c)
      | Num0 \<Rightarrow> state0 s c
      | Dot \<Rightarrow> (if isDigit c then s\<lparr> step := Dot0 \<rparr> else scanFail s)
      | Dot0 \<Rightarrow>
          (if isDigit c then s
           else if c = CHR ''e'' \<or> c = CHR ''E'' then s\<lparr> step := NumE \<rparr>
           else stateEndValue s c)
      | NumE \<Rightarrow>
          (if c = CHR ''+'' \<or> c = CHR ''-'' then s\<lparr> step := NumESign \<rparr> else stateESign s c)
      | NumESign \<Rightarrow> stateESign s c
      | NumE0 \<Rightarrow> (if isDigit c then s else stateEndValue s c)
      | LitT \<Rightarrow> expect s c CHR ''r'' LitTr
      | LitTr \<Rightarrow> expect s c CHR ''u'' LitTru
      | LitTru \<Rightarrow> expect s c CHR ''e'' EndValue
      | LitF \<Rightarrow> expect s c CHR ''a'' LitFa
      | LitFa \<Rightarrow> expect s c CHR ''l'' LitFal
      | LitFal \<Rightarrow> expect s c CHR ''s'' LitFals
      | LitFals \<Rightarrow> expect s c CHR ''e'' EndValue
      | LitN \<Rightarrow> expect s c CHR ''u'' LitNu
      | LitNu \<Rightarrow> expect s c CHR ''l'' LitNul
      | LitNul \<Rightarrow> expect s c CHR ''l'' EndValue
      | ScanError \<Rightarrow> scanFail s)"

text \<open>At the end of the input the scanner is fed one space.\<close>

definition scanEof :: "scanner \<Rightarrow> bool" where
  "scanEof s =
     (if scanErr s then False
      else if endTop s then True
      else endTop (scanByte s CHR '' ''))"

definition checkValid :: "string \<Rightarrow> bool" where
  "checkValid data = scanEof (foldl scanByte scanReset data)"

text \<open>
  \<open>json.Unmarshal(data, &v)\<close> for a struct \<open>v\<close> without an unmarshaler of its own: a syntax
  error leaves \<open>v\<close> alone; the literal \<open>null\<close> has no effect; an object is decoded member by
  member (\<open>decodeObject\<close>, the library's reflection, a parameter: the error if any, and the
  struct as the decoder leaves it); any other value is a type error.
\<close>

definition jsonUnmarshalStruct ::
  "(string \<Rightarrow> 'a \<Rightarrow> error option \<times> 'a) \<Rightarrow> string \<Rightarrow> 'a \<Rightarrow> error option \<times> 'a" where
  "jsonUnmarshalStruct decodeObject data v =
     (if \<not> checkValid data then (Some JsonSyntaxError, v)
      else case dropWhile isSpace data of
             [] \<Rightarrow> (Some JsonSyntaxError, v)
           | c # cs \<Rightarrow>
               (if c = CHR ''{'' then decodeObject data v
                else if c = CHR ''n'' then (None, v)
                else (Some JsonUnmarshalTypeError, v)))"

subsection \<open>ServerToolChoice\<close>

record ToolFunction =
  Name :: string

record ToolChoice =
  tc_Type :: string
  tc_Function :: ToolFunction

record ServerToolChoice =
  String :: string
  Function :: ToolChoice

definition zeroToolChoice :: ToolChoice where
  "zeroToolChoice = \<lparr> tc_Type = [], tc_Function = \<lparr> Name = [] \<rparr> \<rparr>"

text \<open>\<open>ServerToolChoice.UnmarshalJSON\<close>: the returned error (always nil) or a panic, and the
  receiver as the call leaves it.\<close>

definition UnmarshalJSON ::
  "(string \<Rightarrow> ToolChoice \<Rightarrow> error option \<times> ToolChoice) \<Rightarrow> ServerToolChoice \<Rightarrow> string
     \<Rightarrow> error option result \<times> ServerToolChoice" where
  "UnmarshalJSON decodeObject m data =
     (case jsonUnmarshalStruct decodeObject data (Function m) of
        (None, f) \<Rightarrow> (Ok None, m\<lparr> Function := f \<rparr>)
      | (Some err, f) \<Rightarrow>
          (let m1 = m\<lparr> Function := f \<rparr>
           in case data of
                [] \<Rightarrow> (Panic IndexOutOfRange, m1)
              | c # cs \<Rightarrow>
                  (let data1 = (if c = CHR 0x22 then cs else data)
                   in if data1 = [] then (Panic IndexOutOfRange, m1)
                      else
                        let data2 = (if last data1 = CHR 0x22 then butlast data1 else data1)
                        in (Ok None, m1\<lparr> String := data2, Function := zeroToolChoice \<rparr>))))"

text \<open>
  Two notions for the statement of what \<open>UnmarshalJSON\<close> does: the first byte of the input
  that is not white space, which tells an object and \<open>null\<close> from the other values of a valid
  input, and the input without at most one double quote at each end.
\<close>

definition topLevel :: "string \<Rightarrow> char option" where
  "topLevel data = (case dropWhile isSpace data of [] \<Rightarrow> None | c # cs \<Rightarrow> Some c)"

definition strip_quotes :: "string \<Rightarrow> string" where
  "strip_quotes data =
     (let d1 = (case data of [] \<Rightarrow> [] | c # cs \<Rightarrow> if c = CHR 0x22 then cs else data)
      in if d1 \<noteq> [] \<and> last d1 = CHR 0x22 then butlast d1 else d1)"

section \<open>Values for the examples\<close>

text \<open>
  The closed examples below need an environment. The arithmetic is \<open>binary64\<close>. The codec
  stands for the library: its frames are the samples themselves, uncompressed, and the encoder
  state counts the frames. The other members answer as a library could: the JSON text of an
  upstream error is its message, every device text message is rejected, and no object decodes
  into a tool choice without an error.
\<close>

definition pcm_codec :: "nat opus_codec" where
  "pcm_codec =
     \<lparr> opus_decode = (\<lambda>rate data. case readInt16s data of
                                      None \<Rightarrow> Inl ''opus: corrupted stream''
                                    | Some pcm \<Rightarrow> Inr pcm),
       opus_encode = (\<lambda>n pcm. (Suc n, int16ToBytes pcm)),
       opus_new_encoder = 0 \<rparr>"

definition example_cfg :: Config where
  "example_cfg =
     \<lparr> cfg_SystemPrompt = ''You are a voice assistant.'', cfg_Model = ''step-1o-audio'',
       cfg_Voice = ''alloy'', cfg_Transport = ''websocket'' \<rparr>"

definition example_env :: "(rat, nat) env" where
  "example_env =
     \<lparr> env_fp = binary64, env_opus = pcm_codec, env_cfg = example_cfg,
       env_toJSON = er_Message,
       env_UnmarshalClientEvent = (\<lambda>data. Inl JsonSyntaxError) \<rparr>"

definition example_handler :: "nat XiaozhiHandler" where
  "example_handler = NewXiaozhiHandler example_cfg"

definition reject_object :: "string \<Rightarrow> ToolChoice \<Rightarrow> error option \<times> ToolChoice" where
  "reject_object data v = (Some JsonUnmarshalTypeError, v)"

definition example_resampler :: goResampler where
  "example_resampler =
     \<lparr> channels = 1, isr = 16000, osr = 24000, lcache = [], rcache = [],
       lws = 0, rws = 0, lcs = 0, rcs = 0 \<rparr>"

definition zeroFields :: RtFields where
  "zeroFields =
     \<lparr> rf_Error = \<lparr> er_Message = [], er_Type = [], er_Code = [], er_Param = [], er_EventID = [] \<rparr>,
       rf_Session = \<lparr> ss_ID = [], ss_Object = [], ss_Model = [], ss_Instructions = [], ss_Voice = [] \<rparr>,
       rf_Transcript = [], rf_Delta = [],
       rf_Part = \<lparr> mcp_Type = [], mcp_Text = None, mcp_Audio = None, mcp_Transcript = None,
                   mcp_RawText = None \<rparr> \<rparr>"

definition example_conn :: "nat ConnWrapper" where
  "example_conn = \<lparr> handler = example_handler, connWritten = [], readLoopDone = False \<rparr>"

definition example_abort :: ClientEvent where
  "example_abort =
     ClientEventAbort
       \<lparr> ce_Type = ClientEventTypeAbort, ce_Version = 0, ce_Transport = [], ce_SessionID = [],
         ce_AudioParams = None \<rparr> ''wake_word_detected''"

text \<open>Sixteen samples of one channel, as bytes and as samples; a converter for frames of
  1 ms (24 samples) with two samples left over, and 47 more samples as bytes.\<close>

definition pcm16 :: "byte list" where
  "pcm16 = [0, 0, 100, 0, 200, 0, 44, 1, 144, 1, 244, 1, 88, 2, 188, 2, 32, 3, 132, 3, 232, 3,
            76, 4, 176, 4, 20, 5, 120, 5, 220, 5]"

definition cache16 :: "int16 list" where
  "cache16 = [0, 100, 200, 300, 400, 500, 600, 700, 800, 900, 1000, 1100, 1200, 1300, 1400, 1500]"

definition example_converter :: "nat Converter" where
  "example_converter =
     \<lparr> c_SampleRate = 16000, c_DownSampleRate = 24000, c_Channels = 1, c_FrameSize = 16,
       c_FrameDuration = 1, c_DownDuration = 1,
       upReSampler = example_resampler,
       downReSampler = example_resampler\<lparr> isr := 24000 \<rparr>,
       delta = [1, 2], Encoder = 0 \<rparr>"

definition example_delta :: "byte list" where
  "example_delta =
     [1, 0, 2, 0, 3, 0, 4, 0, 5, 0, 6, 0, 7, 0, 8, 0, 9, 0, 10, 0, 11, 0, 12, 0, 13, 0, 14, 0,
     15, 0, 16, 0, 17, 0, 18, 0, 19, 0, 20, 0, 21, 0, 22, 0, 23, 0, 24, 0, 25, 0, 26, 0, 27, 0,
     28, 0, 29, 0, 30, 0, 31, 0, 32, 0, 33, 0, 34, 0, 35, 0, 36, 0, 37, 0, 38, 0, 39, 0, 40, 0,
     41, 0, 42, 0, 43, 0, 44, 0, 45, 0, 46, 0, 47, 0]"

definition example_choice :: ServerToolChoice where
  "example_choice =
     \<lparr> String = ''auto'', Function = \<lparr> tc_Type = ''function'', tc_Function = \<lparr> Name = ''get_time'' \<rparr> \<rparr> \<rparr>"

definition pcm17 :: "byte list" where
  "pcm17 = [0, 0, 10, 0, 40, 0, 90, 0, 160, 0, 250, 0, 104, 1, 234, 1, 128, 2, 42, 3, 232, 3,
            186, 4, 160, 5, 154, 6, 168, 7, 202, 8, 0, 10]"

definition samples17 :: "int16 list" where
  "samples17 = [0, 10, 40, 90, 160, 250, 360, 490, 640, 810, 1000, 1210, 1440, 1690, 1960, 2250, 2560]"

section \<open>Pacing of the end of a response\<close>





section \<open>The abort event\<close>

text \<open>
  Claim C2, as amended. The dispatcher has no case for the device's \<open>abort\<close> event: it returns
  no error and leaves the handler as it was, so nothing (no \<open>response.cancel\<close>) is written to
  the upstream connection; the read loop writes no error event and goes on.
\<close>

theorem abort_is_dropped:
  assumes "env_UnmarshalClientEvent env m = Inr (ClientEventAbort b reason)"
  shows "DispatchClientEvent env r (Some (ClientEventAbort b reason)) eventID = (Ok (None, False), r) \<and>
         ReadLoopStep env w (TextMessage m) eventID = Ok w"
  using assms by (simp add: DispatchClientEvent_def ReadLoopStep_def)

theorem abort_is_dropped_witness:
  "env_UnmarshalClientEvent (example_env\<lparr> env_UnmarshalClientEvent := (\<lambda>m. Inr example_abort) \<rparr>) [] =
     Inr example_abort \<and>
   DispatchClientEvent (example_env\<lparr> env_UnmarshalClientEvent := (\<lambda>m. Inr example_abort) \<rparr>)
     example_handler (Some example_abort) ''event_1'' = (Ok (None, False), example_handler) \<and>
   ReadLoopStep (example_env\<lparr> env_UnmarshalClientEvent := (\<lambda>m. Inr example_abort) \<rparr>)
     example_conn (TextMessage []) ''event_1'' = Ok example_conn"
  using abort_is_dropped
    [of "example_env\<lparr> env_UnmarshalClientEvent := (\<lambda>m. Inr example_abort) \<rparr>" "[]"
      "\<lparr> ce_Type = ClientEventTypeAbort, ce_Version = 0, ce_Transport = [], ce_SessionID = [],
         ce_AudioParams = None \<rparr>" "''wake_word_detected''" example_handler "''event_1''" example_conn]
  by (simp add: example_abort_def)

text \<open>The claim as stated fails: after the abort event the upstream connection has been
  written nothing.\<close>

theorem abort_forwarded_counterexample:
  "apiSent (snd (DispatchClientEvent example_env example_handler (Some example_abort) ''event_1'')) = []"
  by (simp add: DispatchClientEvent_def example_abort_def example_handler_def NewXiaozhiHandler_def)

section \<open>Audio before hello\<close>

text \<open>
  Claim C3. A binary audio frame that arrives before any hello is to be answered with an error
  event, the connection staying open. The code does not answer: before any hello the converter
  is nil, dispatching a non-empty binary frame panics on the nil converter, the dispatcher
  recovers the panic and returns no error and no quit. The handler is unchanged, nothing is
  sent upstream, the read loop writes no error event and goes on (the connection stays open).
  Every other failure of the same path is returned and written to the device as an error
  event.
\<close>

theorem audio_before_hello_is_silent:
  assumes "audioConverter (handler w) = None" and "data \<noteq> []"
  shows "DispatchClientEvent env (handler w) (Some (UnmarshalClientBinEvent data)) eventID =
           (Ok (None, False), handler w) \<and>
         ReadLoopStep env w (BinaryMessage data) eventID = Ok w"
  using assms
  by (simp add: DispatchClientEvent_def ReadLoopStep_def UnmarshalClientBinEvent_def
      handleInputAudioBufferAppend_def OpusToPcmBase64_def)

theorem audio_before_hello_is_silent_witness:
  "audioConverter (handler example_conn) = None \<and> [1, 2, 3] \<noteq> ([] :: byte list) \<and>
   DispatchClientEvent example_env (handler example_conn) (Some (UnmarshalClientBinEvent [1, 2, 3]))
     ''event_1'' = (Ok (None, False), handler example_conn) \<and>
   ReadLoopStep example_env example_conn (BinaryMessage [1, 2, 3]) ''event_1'' = Ok example_conn"
  using audio_before_hello_is_silent [of example_conn "[1, 2, 3]" example_env "''event_1''"]
  by (simp add: example_conn_def example_handler_def NewXiaozhiHandler_def)

text \<open>The claim as stated fails: the dispatch of a frame before hello returns no error.\<close>

theorem audio_before_hello_counterexample:
  "fst (DispatchClientEvent example_env example_handler (Some (UnmarshalClientBinEvent [1, 2, 3]))
     ''event_1'') = Ok (None, False) \<and>
   ReadLoopStep example_env example_conn (BinaryMessage [1, 2, 3]) ''event_1'' = Ok example_conn"
  by (simp add: DispatchClientEvent_def ReadLoopStep_def UnmarshalClientBinEvent_def
      handleInputAudioBufferAppend_def OpusToPcmBase64_def example_conn_def example_handler_def
      NewXiaozhiHandler_def)

section \<open>Transcription completed\<close>

lemma UnmarshalServerEvent_transcription_completed:
  "UnmarshalServerEvent
     (JsonObject ServerEventTypeConversationItemInputAudioTranscriptionCompleted eid f) =
   Inr \<lparr> kind = ConversationItemInputAudioTranscriptionCompletedEvent, EventID = eid,
         Type = ServerEventTypeConversationItemInputAudioTranscriptionCompleted, payload = f \<rparr>"
  by (simp add: UnmarshalServerEvent_def unmarshalCases_def ServerEventType_defs)

lemma Itoa_smilingFace: "Itoa smilingFace = ''128522''"
  by (simp add: Itoa_def smilingFace_def)

text \<open>
  Claim C4. On \<open>conversation.item.input_audio_transcription.completed\<close> with transcript \<open>t\<close>
  the gateway enqueues, in order, an \<open>stt\<close> event with text \<open>t\<close> and an \<open>llm\<close> event with emotion
  \<open>happy\<close>. What the code does with the text of the \<open>llm\<close> event: it is the decimal number of
  the code point of the emoji, \<open>128522\<close>, not the emoji.
\<close>

theorem transcription_completed_events:
  assumes "\<not> closed w"
  shows "handleRealtimeApiEvent env w
           (JsonObject ServerEventTypeConversationItemInputAudioTranscriptionCompleted eid f) now1 now2 =
         (Ok (), w\<lparr> writeQueue := writeQueue w @
            [QEvent (ServerEventSTT \<lparr> se_Type = ServerEventTypeSTT, se_SessionId = GetSessionId w \<rparr>
                       (rf_Transcript f)),
             QEvent (ServerEventLLM \<lparr> se_Type = ServerEventTypeLLM, se_SessionId = GetSessionId w \<rparr>
                       ''128522'' ''happy'')] \<rparr>)"
  unfolding handleRealtimeApiEvent_def UnmarshalServerEvent_transcription_completed using assms
  by (simp add: ServerEventType_defs handleAsrDone_def WriteRespEvent_def Itoa_smilingFace
      GetSessionId_def)

theorem transcription_completed_events_witness:
  "\<not> closed example_handler \<and>
   handleRealtimeApiEvent example_env example_handler
     (JsonObject ServerEventTypeConversationItemInputAudioTranscriptionCompleted ''event_1''
        (zeroFields\<lparr> rf_Transcript := ''hi'' \<rparr>)) 0 0 =
   (Ok (), example_handler\<lparr> writeQueue :=
      [QEvent (ServerEventSTT \<lparr> se_Type = ''stt'', se_SessionId = [] \<rparr> ''hi''),
       QEvent (ServerEventLLM \<lparr> se_Type = ''llm'', se_SessionId = [] \<rparr> ''128522'' ''happy'')] \<rparr>)"
  using transcription_completed_events
    [of example_handler example_env "''event_1''" "zeroFields\<lparr> rf_Transcript := ''hi'' \<rparr>" 0 0]
  by (simp add: example_handler_def NewXiaozhiHandler_def GetSessionId_def NewApiSession_def
      ServerEventTypeSTT_def ServerEventTypeLLM_def)

section \<open>Go arithmetic on non-negative integers\<close>

lemma wrap64_id: "- (2 ^ 63) \<le> i \<Longrightarrow> i < 2 ^ 63 \<Longrightarrow> wrap64 i = i"
  by (simp add: wrap64_def)

lemma smod_nonneg: "0 \<le> (n::int) \<Longrightarrow> 0 < k \<Longrightarrow> n smod k = n mod k"
  by (cases "n = 0") (simp_all add: smod_int_alt_def)

lemma sdiv_nonneg: "0 \<le> (n::int) \<Longrightarrow> 0 < k \<Longrightarrow> n sdiv k = n div k"
  by (cases "n = 0") (simp_all add: signed_divide_int_def)

section \<open>Splitting upstream audio into frames\<close>

text \<open>
  The loop of \<open>parseFrames\<close> over a buffer of \<open>k\<close> whole chunks encodes the chunks in order,
  threading the encoder, and hands each frame to the callback.
\<close>

lemma map_upt_Suc_shift: "map f [0 ..< Suc k] = f 0 # map (\<lambda>j. f (Suc j)) [0 ..< k]"
  by (simp add: map_upt_Suc del: upt_Suc)

lemma encodeLoop_chunks:
  fixes g :: "'s \<Rightarrow> byte list \<Rightarrow> 's"
  assumes "0 < chunk" and "0 \<le> i"
  shows "int (length d) = i + int k * chunk \<Longrightarrow>
     encodeLoop opus (\<lambda>s f. Ok (g s f)) d chunk i enc s =
       (Ok (),
        fst (spec_encode opus enc (map (\<lambda>j. take (nat chunk) (drop (nat i + j * nat chunk) d)) [0 ..< k])),
        foldl g s (snd (spec_encode opus enc
                    (map (\<lambda>j. take (nat chunk) (drop (nat i + j * nat chunk) d)) [0 ..< k]))))"
  using assms(2)
proof (induction k arbitrary: i enc s)
  case 0
  then show ?case by (subst encodeLoop.simps) simp
next
  case (Suc k)
  have lt: "i < int (length d)" using Suc.prems assms(1) by (simp add: algebra_simps)
       (smt (verit) mult_nonneg_nonneg of_nat_0_le_iff)
  have fits: "\<not> int (length d) < i + chunk"
    using Suc.prems assms(1) by (simp add: algebra_simps) 
       (smt (verit) mult_nonneg_nonneg of_nat_0_le_iff)
  have len': "int (length d) = (i + chunk) + int k * chunk"
    using Suc.prems by (simp add: algebra_simps)
  have nn: "0 \<le> i + chunk" using Suc.prems assms(1) by simp
  have shift: "\<And>j. nat (i + chunk) + j * nat chunk = nat i + Suc j * nat chunk"
    using Suc.prems assms(1) by (simp add: nat_add_distrib)
  obtain enc1 frame where e: "opus_encode opus enc (take (nat chunk) (drop (nat i) d)) = (enc1, frame)"
    by (cases "opus_encode opus enc (take (nat chunk) (drop (nat i) d))")
  have step: "encodeLoop opus (\<lambda>s f. Ok (g s f)) d chunk i enc s =
      encodeLoop opus (\<lambda>s f. Ok (g s f)) d chunk (i + chunk) enc1 (g s frame)"
    using lt fits Suc.prems(2) assms(1) e by (subst encodeLoop.simps) simp
  show ?case
    unfolding step Suc.IH [OF len' nn] map_upt_Suc_shift shift
    by (simp add: e split: prod.splits)
qed


lemma chunk_of_take:
  assumes "Suc j * k \<le> m"
  shows "take k (drop (j * k) (take m xs)) = take k (drop (j * k) xs)"
proof -
  have "drop (j * k) (take m xs) = take (m - j * k) (drop (j * k) xs)"
    by (simp add: drop_take)
  moreover have "k \<le> m - j * k" using assms by simp
  ultimately show ?thesis by (simp add: min_def)
qed

lemma spec_chunks_take:
  assumes "0 < k"
  shows "map (\<lambda>j. take k (drop (0 + j * k) (take (length xs - length xs mod k) xs))) [0 ..< length xs div k]
         = spec_chunks k xs"
  unfolding spec_chunks_def
proof (rule map_cong [OF refl])
  fix j assume "j \<in> set [0 ..< length xs div k]"
  then have "j < length xs div k" by simp
  then have "Suc j \<le> length xs div k" by simp
  then have "Suc j * k \<le> (length xs div k) * k" by (rule mult_le_mono1)
  also have "\<dots> = length xs - length xs mod k" by (simp add: minus_mod_eq_div_mult)
  finally show "take k (drop (0 + j * k) (take (length xs - length xs mod k) xs)) = take k (drop (j * k) xs)"
    by (simp add: chunk_of_take)
qed

lemma chunkOf_24k:
  assumes "c_DownSampleRate c = 24000" and "0 < c_DownDuration c" and "c_DownDuration c < 2 ^ 32"
  shows "chunkOf c = 24 * c_DownDuration c"
proof -
  have "wrap64 (c_DownDuration c * 24000) = c_DownDuration c * 24000"
    using assms by (intro wrap64_id) auto
  then show ?thesis using assms by (simp add: chunkOf_def signed_divide_int_def sgn_if)
qed

text \<open>
  Claim C5. With the leftover buffer of \<open>L\<close> samples and \<open>D\<close> decoded samples after the gain, and
  \<open>chunk = frame_duration_ms * 24000 / 1000\<close>: \<open>parseFrames\<close> encodes exactly
  \<open>(L + D) div chunk\<close> frames, each from the next \<open>chunk\<close> consecutive samples, delivers them to
  the callback in that order, and leaves the trailing \<open>(L + D) mod chunk\<close> samples, fewer than
  \<open>chunk\<close>, as the new leftover. The device rate is 24000, as \<open>NewConverter\<close> sets it, and the
  frame duration is positive and below \<open>2 ^ 32\<close> ms, so that the product does not wrap.
\<close>

theorem parseFrames_emits_whole_chunks:
  fixes g :: "'s \<Rightarrow> byte list \<Rightarrow> 's"
  assumes "c_DownSampleRate c = 24000" and "0 < c_DownDuration c" and "c_DownDuration c < 2 ^ 32"
  shows "chunkOf c = c_DownDuration c * 24000 div 1000 \<and>
         parseFrames opus (\<lambda>s f. Ok (g s f)) c audioDelta s =
           (Ok (),
            c\<lparr> delta := drop (length (appended c audioDelta)
                                - length (appended c audioDelta) mod nat (chunkOf c))
                            (appended c audioDelta),
               Encoder := fst (spec_encode opus (Encoder c)
                                 (spec_chunks (nat (chunkOf c)) (appended c audioDelta))) \<rparr>,
            foldl g s (snd (spec_encode opus (Encoder c)
                              (spec_chunks (nat (chunkOf c)) (appended c audioDelta))))) \<and>
         length (spec_chunks (nat (chunkOf c)) (appended c audioDelta)) =
           (length (delta c) + length (gain (bytesToInt16 audioDelta) 8)) div nat (chunkOf c) \<and>
         length (drop (length (appended c audioDelta)
                       - length (appended c audioDelta) mod nat (chunkOf c)) (appended c audioDelta)) =
           (length (delta c) + length (gain (bytesToInt16 audioDelta) 8)) mod nat (chunkOf c) \<and>
         (length (delta c) + length (gain (bytesToInt16 audioDelta) 8)) mod nat (chunkOf c) < nat (chunkOf c)"
proof -
  define k where "k = nat (chunkOf c)"
  define buf where "buf = appended c audioDelta"
  have ch: "chunkOf c = 24 * c_DownDuration c" by (rule chunkOf_24k [OF assms])
  have kpos: "0 < k" and kint: "int k = chunkOf c" using ch assms(2) by (simp_all add: k_def)
  have chpos: "0 < chunkOf c" using ch assms(2) by simp
  define n where "n = length buf"
  have r: "int n smod chunkOf c = int (n mod k)"
    using chpos by (simp add: smod_nonneg kint [symmetric] zmod_int)
  have m: "nat (int n - int (n mod k)) = n - n mod k"
    by (simp add: nat_diff_distrib)
  define d2 where "d2 = take (n - n mod k) buf"
  have d2len: "int (length d2) = 0 + int (n div k) * chunkOf c"
    by (simp add: d2_def n_def kint [symmetric] minus_mod_eq_div_mult flip: of_nat_mult)
  have loop: "encodeLoop opus (\<lambda>s f. Ok (g s f)) d2 (chunkOf c) 0 (Encoder c) s =
      (Ok (), fst (spec_encode opus (Encoder c) (spec_chunks k buf)),
       foldl g s (snd (spec_encode opus (Encoder c) (spec_chunks k buf))))"
    using encodeLoop_chunks [OF chpos order_refl d2len, of opus g "Encoder c" s]
      spec_chunks_take [OF kpos, of buf]
    by (simp add: d2_def n_def k_def)
  have d2eq: "n mod k = 0 \<Longrightarrow> d2 = buf" by (simp add: d2_def n_def)
  have rest0: "n mod k = 0 \<Longrightarrow> drop (n - n mod k) buf = []" by (simp add: n_def)
  have pf: "parseFrames opus (\<lambda>s f. Ok (g s f)) c audioDelta s =
      (Ok (), c\<lparr> delta := drop (n - n mod k) buf,
                 Encoder := fst (spec_encode opus (Encoder c) (spec_chunks k buf)) \<rparr>,
       foldl g s (snd (spec_encode opus (Encoder c) (spec_chunks k buf))))"
  proof (cases "n mod k = 0")
    case True
    then show ?thesis
      using chpos loop r d2eq rest0
      by (simp add: parseFrames_def Let_def buf_def [symmetric] n_def [symmetric])
  next
    case False
    then show ?thesis
      using chpos loop r m
      by (simp add: parseFrames_def Let_def buf_def [symmetric] n_def [symmetric] d2_def)
  qed
  have nlen: "n = length (delta c) + length (gain (bytesToInt16 audioDelta) 8)"
    by (simp add: n_def buf_def appended_def)
  have c1: "chunkOf c = c_DownDuration c * 24000 div 1000" using ch by simp
  have c3: "length (spec_chunks k buf) = n div k" by (simp add: spec_chunks_def n_def)
  have c4: "length (drop (n - n mod k) buf) = n mod k" by (simp add: n_def)
  have c5: "n mod k < k" using kpos by simp
  show ?thesis
    using c1 pf c3 c4 c5 unfolding k_def buf_def n_def [unfolded buf_def] nlen [unfolded n_def buf_def, symmetric]
    by (simp add: appended_def)
qed

theorem parseFrames_emits_whole_chunks_witness:
  "c_DownSampleRate example_converter = 24000 \<and> 0 < c_DownDuration example_converter \<and>
   c_DownDuration example_converter < 2 ^ 32 \<and> chunkOf example_converter = 24 \<and>
   parseFrames pcm_codec (\<lambda>s f. Ok (s @ [f])) example_converter example_delta [] =
     (Ok (), example_converter\<lparr> delta := [376], Encoder := 2 \<rparr>,
      [[1, 0, 2, 0, 8, 0, 16, 0, 24, 0, 32, 0, 40, 0, 48, 0, 56, 0, 64, 0, 72, 0, 80, 0, 88, 0, 96, 0, 104, 0, 112, 0, 120, 0, 128, 0, 136, 0, 144, 0, 152, 0, 160, 0, 168, 0, 176, 0],
       [184, 0, 192, 0, 200, 0, 208, 0, 216, 0, 224, 0, 232, 0, 240, 0, 248, 0, 0, 1, 8, 1, 16, 1, 24, 1, 32, 1, 40, 1, 48, 1, 56, 1, 64, 1, 72, 1, 80, 1, 88, 1, 96, 1, 104, 1, 112, 1]]) \<and>
   (length (delta example_converter) + length (gain (bytesToInt16 example_delta) 8)) div 24 = 2 \<and>
   (length (delta example_converter) + length (gain (bytesToInt16 example_delta) 8)) mod 24 = 1"
  using parseFrames_emits_whole_chunks [where c = example_converter and g = "\<lambda>s f. s @ [f]" and opus = pcm_codec
      and audioDelta = example_delta and s = "[]"]
  by (simp add: example_converter_def example_delta_def appended_def bytesToInt16_def the_slice_def
      gain_def spec_chunks_def pcm_codec_def int16ToBytes_def lo_byte_def hi_byte_def upt_rec)

section \<open>The resampler\<close>

subsection \<open>Equal rates\<close>

text \<open>
  Claim C8. A resampler whose input and output rates are equal returns every buffer whose
  length is a nonzero multiple of twice the channel count as it is, without an error, and its
  state is unchanged.
\<close>

theorem Handle_same_rate_passthrough:
  assumes "isr v = osr v" and "0 < channels v" and "pcm \<noteq> []"
    and "int (length pcm) mod (2 * channels v) = 0"
  shows "Handle fp v pcm = (Ok pcm, v)"
  using assms by (simp add: Handle_def smod_nonneg)

theorem Handle_same_rate_passthrough_witness:
  "isr (example_resampler\<lparr> isr := 24000 \<rparr>) = osr (example_resampler\<lparr> isr := 24000 \<rparr>) \<and>
   0 < channels (example_resampler\<lparr> isr := 24000 \<rparr>) \<and> [1, 0, 2, 0] \<noteq> ([] :: byte list) \<and>
   int (length [1, 0, 2, 0 :: byte]) mod (2 * channels (example_resampler\<lparr> isr := 24000 \<rparr>)) = 0 \<and>
   Handle binary64 (example_resampler\<lparr> isr := 24000 \<rparr>) [1, 0, 2, 0] =
     (Ok [1, 0, 2, 0], example_resampler\<lparr> isr := 24000 \<rparr>)"
  using Handle_same_rate_passthrough [of "example_resampler\<lparr> isr := 24000 \<rparr>" "[1, 0, 2, 0]" binary64]
  by (simp add: example_resampler_def)

subsection \<open>Fewer than four samples\<close>

text \<open>
  Claim C7. With different rates, a buffer of fewer than 4 samples per channel does not give
  an empty output without an error: \<open>Handle\<close> returns an error (empty buffer, length not a
  multiple of the sample size, or \<open>atleast 4samples\<close>). The state is unchanged, as claimed.
\<close>

theorem Handle_short_input_is_error:
  assumes "isr v \<noteq> osr v" and "0 < channels v" and "int (length pcm) div 2 div channels v < 4"
  shows "Handle fp v pcm =
           (Err (if pcm = [] then EmptyPcm
                 else if int (length pcm) mod (2 * channels v) \<noteq> 0 then InvalidPcmMod (2 * channels v)
                 else AtLeast4Samples (int (length pcm) div 2 div channels v)), v)"
  using assms by (simp add: Handle_def smod_nonneg sdiv_nonneg Let_def pos_imp_zdiv_nonneg_iff)

theorem Handle_short_input_is_error_witness:
  "isr example_resampler \<noteq> osr example_resampler \<and> 0 < channels example_resampler \<and>
   int (length [1, 0 :: byte]) div 2 div channels example_resampler < 4 \<and>
   Handle binary64 example_resampler [1, 0] = (Err (AtLeast4Samples 1), example_resampler)"
  using Handle_short_input_is_error [of example_resampler "[1, 0]" binary64]
  by (simp add: example_resampler_def)

text \<open>
  Three samples on one channel: what the claim calls an empty output with no error is the
  error \<open>invalid pcm, atleast 4samples, actual 3samples\<close>.
\<close>

theorem Handle_short_input_counterexample:
  "Handle binary64 example_resampler [1, 0, 2, 0, 3, 0] = (Err (AtLeast4Samples 3), example_resampler)"
  by (simp add: Handle_def example_resampler_def signed_divide_int_def smod_int_alt_def)

subsection \<open>The cache and the counters\<close>

text \<open>
  The claim about the cache needs to know how far the loop of \<open>resampleChannel\<close> can read,
  and that depends on the arithmetic. The theorem below holds for every arithmetic that obeys
  \<open>float64_laws\<close>; \<open>binary64\<close> does.
\<close>

lemma uint_add_small:
  fixes w :: uint64
  assumes "0 \<le> k" and "uint w + k < 2 ^ 64"
  shows "uint (w + word_of_int k) = uint w + k"
proof -
  have e: "w + word_of_int k = word_of_int (uint w + k)"
    by (simp only: wi_hom_add [symmetric] word_of_int_uint)
  have "uint (w + word_of_int k) = (uint w + k) mod 2 ^ 64"
    unfolding e uint_word_of_int by simp
  moreover have "(uint w + k) mod 2 ^ 64 = uint w + k"
    using assms uint_ge_0 [of w] by (intro mod_pos_pos_trivial) simp_all
  ultimately show ?thesis by simp
qed

subsubsection \<open>The arithmetic of the examples obeys the laws\<close>

lemma rexp_up_le: "a < 2 ^ Suc k \<Longrightarrow> rexp_up a \<le> int k"
proof (induction k arbitrary: a)
  case 0
  then show ?case by (subst rexp_up.simps) simp
next
  case (Suc k)
  show ?case
  proof (cases "a < 2")
    case True
    then show ?thesis by (subst rexp_up.simps) simp
  next
    case False
    have "a / 2 < 2 ^ Suc k" using Suc.prems by simp
    then have "rexp_up (a / 2) \<le> int k" by (rule Suc.IH)
    with False show ?thesis by (subst rexp_up.simps) simp
  qed
qed

lemma rexp_up_nonneg: "0 \<le> rexp_up a"
proof (induction a rule: rexp_up.induct)
  case (1 a)
  then show ?case by (subst rexp_up.simps) simp
qed

lemma round_even_of_int: "round_even (of_int z) = z"
  by (simp add: round_even_def)

lemma round_even_nonneg: "0 \<le> q \<Longrightarrow> 0 \<le> round_even q"
  by (simp add: round_even_def Let_def)

lemma trunc0_of_int: "trunc0 (of_int n) = n"
  by (simp add: trunc0_def)

lemma pow2_pos: "0 < pow2 k"
  by (simp add: pow2_def)

lemma fl_nonneg: "0 \<le> q \<Longrightarrow> 0 \<le> fl q"
  by (cases "q = 0") (simp_all add: fl_def Let_def round_even_nonneg pow2_pos less_imp_le)

lemma fl_of_int:
  assumes "0 \<le> n" and "n < 2 ^ 53"
  shows "fl (of_int n) = of_int n"
proof (cases "n = 0")
  case True
  then show ?thesis by (simp add: fl_def)
next
  case False
  then have pos: "0 < n" using assms(1) by simp
  define a :: rat where "a = of_int n"
  have a1: "1 \<le> a" and apos: "0 < a" using pos by (simp_all add: a_def)
  have "a < 2 ^ Suc 52"
  proof -
    have "(of_int n :: rat) < of_int (2 ^ 53)" using assms(2) by (simp only: of_int_less_iff)
    then show ?thesis by (simp add: a_def)
  qed
  then have le: "rexp_up a \<le> 52" using rexp_up_le [of a 52] by simp
  have ge: "0 \<le> rexp_up a" by (rule rexp_up_nonneg)
  define m where "m = nat (52 - rexp_up a)"
  have rexp: "rexp a = rexp_up a" using a1 by (simp add: rexp_def)
  have p: "pow2 (rexp a - 52) = 1 / 2 ^ m"
  proof (cases "rexp_up a = 52")
    case True
    then show ?thesis by (simp add: pow2_def rexp m_def)
  next
    case False
    then have "rexp_up a - 52 < 0" using le by simp
    moreover have "nat (- (rexp_up a - 52)) = m" by (simp add: m_def)
    ultimately show ?thesis by (simp add: pow2_def rexp)
  qed
  have q: "a / (1 / 2 ^ m) = of_int (n * 2 ^ m)" by (simp add: a_def)
  have "fl a = of_int (round_even (a / (1 / 2 ^ m))) * (1 / 2 ^ m)"
    using apos by (simp add: fl_def Let_def p)
  also have "\<dots> = of_int (n * 2 ^ m) * (1 / 2 ^ m)"
    unfolding q round_even_of_int ..
  also have "\<dots> = a" by (simp add: a_def)
  finally show ?thesis by (simp add: a_def)
qed

lemma binary64_sel:
  "of_int64 binary64 i = fl (of_int i)"
  "of_uint64 binary64 w = fl (of_int (uint w))"
  "fadd binary64 a b = fl (a + b)"
  "fsub binary64 a b = fl (a - b)"
  "fmul binary64 a b = fl (a * b)"
  "fdiv binary64 a b = fl (a / b)"
  "flt binary64 a b = (a < b)"
  "fle binary64 a b = (a \<le> b)"
  "to_uint64 binary64 a = word_of_int (trunc0 a)"
  "to_int16 binary64 a = word_of_int (trunc0 a)"
  by (simp_all add: binary64_def)

lemma fl_zero: "fl 0 = 0"
  by (simp add: fl_def)

lemma nonneg_binary64: "nonneg binary64 x \<longleftrightarrow> 0 \<le> x"
  by (simp add: nonneg_def binary64_sel fl_zero)

lemma of_uint64_small:
  fixes w :: uint64
  assumes "uint w < 2 ^ 53"
  shows "of_uint64 binary64 w = of_int (uint w)"
proof -
  have "fl (of_int (uint w)) = of_int (uint w)"
    using assms by (intro fl_of_int) simp_all
  then show ?thesis by (simp only: binary64_sel)
qed

lemma binary64_laws: "float64_laws binary64"
proof -
  have n1: "\<forall>i. 0 \<le> i \<longrightarrow> nonneg binary64 (of_int64 binary64 i)"
    by (simp add: nonneg_binary64 binary64_sel fl_nonneg)
  have n2: "\<forall>w. nonneg binary64 (of_uint64 binary64 w)"
  proof
    fix w :: uint64
    have "0 \<le> (of_int (uint w) :: rat)" by (simp only: of_int_0_le_iff uint_ge_0)
    then have "0 \<le> fl (of_int (uint w))" by (rule fl_nonneg)
    then show "nonneg binary64 (of_uint64 binary64 w)"
      by (simp only: nonneg_binary64 binary64_sel)
  qed
  have n3: "\<forall>a b. nonneg binary64 a \<longrightarrow> nonneg binary64 b \<longrightarrow>
        nonneg binary64 (fadd binary64 a b) \<and> nonneg binary64 (fmul binary64 a b) \<and>
        nonneg binary64 (fdiv binary64 a b)"
    by (simp add: nonneg_binary64 binary64_sel fl_nonneg)
  have t1: "\<forall>w. uint w < 2 ^ 53 \<longrightarrow> to_uint64 binary64 (of_uint64 binary64 w) = w"
  proof (intro allI impI)
    fix w :: uint64
    assume "uint w < 2 ^ 53"
    then have "of_uint64 binary64 w = of_int (uint w)" by (rule of_uint64_small)
    then have "to_uint64 binary64 (of_uint64 binary64 w) = word_of_int (trunc0 (of_int (uint w)))"
      by (simp only: binary64_sel)
    then show "to_uint64 binary64 (of_uint64 binary64 w) = w"
      by (simp only: trunc0_of_int word_of_int_uint)
  qed
  have t2: "\<forall>x w. uint w < 2 ^ 53 \<longrightarrow> nonneg binary64 x \<longrightarrow> flt binary64 x (of_uint64 binary64 w) \<longrightarrow>
        to_uint64 binary64 x < w"
  proof (intro allI impI)
    fix x :: rat and w :: uint64
    assume w: "uint w < 2 ^ 53" and x: "nonneg binary64 x" and lt: "flt binary64 x (of_uint64 binary64 w)"
    have x0: "0 \<le> x" using x by (simp add: nonneg_binary64)
    have "x < of_int (uint w)" using lt of_uint64_small [OF w] by (simp add: binary64_sel)
    then have f: "\<lfloor>x\<rfloor> < uint w" by (simp add: floor_less_iff)
    have f0: "0 \<le> \<lfloor>x\<rfloor>" using x0 by simp
    have "uint w < 2 ^ 64" using uint_lt2p [of w] by simp
    then have f1: "\<lfloor>x\<rfloor> < 2 ^ 64" using f by (rule less_trans [rotated])
    have "\<lfloor>x\<rfloor> mod 2 ^ 64 = \<lfloor>x\<rfloor>"
      using f0 f1 by (rule mod_pos_pos_trivial)
    then have "uint (word_of_int \<lfloor>x\<rfloor> :: uint64) = \<lfloor>x\<rfloor>"
      by (simp add: uint_word_of_int)
    with f have "(word_of_int \<lfloor>x\<rfloor> :: uint64) < w" by (simp add: word_less_def)
    then show "to_uint64 binary64 x < w" using x0 by (simp add: binary64_sel trunc0_def)
  qed
  show ?thesis unfolding float64_laws_def by (intro conjI n1 n2 n3 t1 t2)
qed

subsubsection \<open>One channel\<close>

text \<open>
  Below \<open>2 ^ 53\<close> the signed reading of a difference of counters is the difference.
\<close>

lemma sint_diff_small:
  fixes a b :: uint64
  assumes "uint a < 2 ^ 53" and "uint b < 2 ^ 53"
  shows "sint (a - b) = uint a - uint b"
proof -
  define d where "d = uint a - uint b"
  have lo: "- (2 ^ 53) < d" and hi: "d < 2 ^ 53"
    using assms uint_ge_0 [of a] uint_ge_0 [of b] unfolding d_def by linarith+
  have e: "a - b = word_of_int d" unfolding d_def by (rule word_sub_wi)
  have "sint (a - b) = (d + 2 ^ 63) mod 2 ^ 64 - 2 ^ 63"
    unfolding e int_word_sint by simp
  moreover have "(d + 2 ^ 63) mod 2 ^ 64 = d + 2 ^ 63"
    using lo hi by (intro mod_pos_pos_trivial) simp_all
  ultimately show ?thesis by (simp add: d_def)
qed

text \<open>
  A round of the loop that succeeds has read four samples inside the slice.
\<close>

lemma resampleStep_Ok:
  assumes "resampleStep fp ipcm org x = Ok (y, c)"
  shows "0 \<le> sint (to_uint64 fp (of_uint64 fp (to_uint64 fp x)) - org) \<and>
         sint (to_uint64 fp (of_uint64 fp (to_uint64 fp x)) - org) + 3 < int (length ipcm) \<and>
         c = wrap64 (sint (to_uint64 fp x - org) + 1)"
  using assms
  by (auto simp add: resampleStep_def Let_def index_def split: option.splits if_splits sum.splits)

text \<open>
  When the loop returns, either it has made no round, or its last round was a successful
  step at a position below the bound; \<open>Q\<close> is any property that the first position has and that
  adding the step keeps.
\<close>

lemma resampleLoop_Ok:
  assumes run: "resampleLoop fp ipcm org xstep lastf x opcm c = Some r"
  shows "(\<forall>x. Q x \<longrightarrow> Q (fadd fp x xstep)) \<longrightarrow> Q x \<longrightarrow>
         (\<forall>out c'. r = Ok (out, c') \<longrightarrow>
            (out = opcm \<and> c' = c) \<or>
            (length opcm < length out \<and>
             (\<exists>x' y. Q x' \<and> flt fp x' lastf \<and> resampleStep fp ipcm org x' = Ok (y, c'))))"
proof -
  let ?P = "\<lambda>fp ipcm org xstep lastf x opcm c r.
         (\<forall>x. Q x \<longrightarrow> Q (fadd fp x xstep)) \<longrightarrow> Q x \<longrightarrow>
         (\<forall>out c'. r = Ok (out, c') \<longrightarrow>
            (out = opcm \<and> c' = c) \<or>
            (length opcm < length out \<and>
             (\<exists>x' y. Q x' \<and> flt fp x' lastf \<and> resampleStep fp ipcm org x' = Ok (y, c'))))"
  have "?P fp ipcm org xstep lastf x opcm c r"
  proof (rule resampleLoop.raw_induct
      [where P = ?P and xa = "(((((((fp, ipcm), org), xstep), lastf), x), opcm), c)" and y = r,
        unfolded prod.case, OF _ run])
    fix f fp ipcm org xstep lastf x opcm c r
    assume IH: "\<And>fp ipcm org xstep lastf x opcm c r.
        f fp ipcm org xstep lastf x opcm c = Some r \<Longrightarrow> ?P fp ipcm org xstep lastf x opcm c r"
      and body: "(if flt fp x lastf
           then case resampleStep fp ipcm org x of
                  Ok (y, c) \<Rightarrow> f fp ipcm org xstep lastf (fadd fp x xstep) (opcm @ [y]) c
                | Err e \<Rightarrow> Some (Err e) | Panic p \<Rightarrow> Some (Panic p)
                | Diverges \<Rightarrow> Some Diverges
           else Some (Ok (opcm, c))) = Some r"
    show "?P fp ipcm org xstep lastf x opcm c r"
    proof (cases "flt fp x lastf")
      case False
      with body show ?thesis by auto
    next
      case True
      show ?thesis
      proof (cases "resampleStep fp ipcm org x")
        case (Ok p)
        obtain y c2 where p: "p = (y, c2)" by (cases p)
        from body True Ok p
        have "f fp ipcm org xstep lastf (fadd fp x xstep) (opcm @ [y]) c2 = Some r" by simp
        from IH [OF this] True Ok p show ?thesis by fastforce
      qed (use body True in auto)
    qed
  qed
  then show ?thesis .
qed

text \<open>
  So the channel consumes nothing when it writes nothing, at least one sample when it writes
  something, and never any of the last 16 samples.
\<close>

lemma resampleChannel_bounds:
  assumes laws: "float64_laws fp"
    and rc: "resampleChannel fp ipcm isr' osr' written org = Ok (opcm, consumed)"
    and rates: "0 \<le> isr'" "0 \<le> osr'"
    and small: "uint org + int (length ipcm) < 2 ^ 53"
  shows "(if opcm = [] then consumed = 0 else 1 \<le> consumed) \<and>
         consumed \<le> int (length ipcm) - int (min 16 (length ipcm))"
proof (cases "length ipcm \<le> 16")
  case True
  then have "opcm = [] \<and> consumed = 0" using rc by (simp add: resampleChannel_def)
  then show ?thesis by simp
next
  case False
  define xstep where "xstep = fdiv fp (of_int64 fp isr') (of_int64 fp osr')"
  define avail where "avail = int (length ipcm) - 16"
  define last :: uint64 where "last = org + word_of_int avail"
  define x0 where "x0 = fmul fp xstep (of_uint64 fp written)"
  have av: "0 < avail" using False by (simp add: avail_def)
  have run: "resampleLoop fp ipcm org xstep (of_uint64 fp last) x0 [] 0 = Some (Ok (opcm, consumed))"
    using rc False
    by (simp add: resampleChannel_def Let_def xstep_def avail_def last_def x0_def
        split: option.splits)
  from laws have N1: "\<And>i. 0 \<le> i \<Longrightarrow> nonneg fp (of_int64 fp i)"
    and N2: "\<And>w. nonneg fp (of_uint64 fp w)"
    and N3: "\<And>a b. nonneg fp a \<Longrightarrow> nonneg fp b \<Longrightarrow> nonneg fp (fadd fp a b)"
    and N4: "\<And>a b. nonneg fp a \<Longrightarrow> nonneg fp b \<Longrightarrow> nonneg fp (fmul fp a b)"
    and N5: "\<And>a b. nonneg fp a \<Longrightarrow> nonneg fp b \<Longrightarrow> nonneg fp (fdiv fp a b)"
    and T1: "\<And>w. uint w < 2 ^ 53 \<Longrightarrow> to_uint64 fp (of_uint64 fp w) = w"
    and T2: "\<And>x w. uint w < 2 ^ 53 \<Longrightarrow> nonneg fp x \<Longrightarrow> flt fp x (of_uint64 fp w)
               \<Longrightarrow> to_uint64 fp x < w"
    unfolding float64_laws_def by simp_all
  have st: "nonneg fp xstep" unfolding xstep_def by (intro N5 N1 rates)
  have q0: "nonneg fp x0" unfolding x0_def by (intro N4 st N2)
  have qs: "\<forall>x. nonneg fp x \<longrightarrow> nonneg fp (fadd fp x xstep)" using N3 st by simp
  from resampleLoop_Ok [OF run, of "nonneg fp"] qs q0
  have "(opcm = [] \<and> consumed = 0) \<or>
        (0 < length opcm \<and>
         (\<exists>x' y. nonneg fp x' \<and> flt fp x' (of_uint64 fp last) \<and>
                 resampleStep fp ipcm org x' = Ok (y, consumed)))"
    by simp
  then show ?thesis
  proof
    assume "opcm = [] \<and> consumed = 0"
    then show ?thesis using False by simp
  next
    assume "0 < length opcm \<and>
         (\<exists>x' y. nonneg fp x' \<and> flt fp x' (of_uint64 fp last) \<and>
                 resampleStep fp ipcm org x' = Ok (y, consumed))"
    then obtain x' y where ne: "opcm \<noteq> []" and qx: "nonneg fp x'"
      and lt: "flt fp x' (of_uint64 fp last)"
      and stp: "resampleStep fp ipcm org x' = Ok (y, consumed)"
      by auto
    have o0: "0 \<le> uint org" by simp
    have ul: "uint last = uint org + avail"
      unfolding last_def using av small by (intro uint_add_small) (simp_all add: avail_def)
    have ls: "uint last < 2 ^ 53" using ul small by (simp add: avail_def)
    have os: "uint org < 2 ^ 53" using small o0 by linarith
    define tx where "tx = to_uint64 fp x'"
    have txl: "tx < last" unfolding tx_def by (rule T2 [OF ls qx lt])
    then have tu: "uint tx < uint last" by (simp add: word_less_def)
    have ts: "uint tx < 2 ^ 53" using tu ls by linarith
    have idem: "to_uint64 fp (of_uint64 fp tx) = tx" by (rule T1 [OF ts])
    from resampleStep_Ok [OF stp]
    have y0: "0 \<le> sint (tx - org)" and c: "consumed = wrap64 (sint (tx - org) + 1)"
      unfolding tx_def [symmetric] idem by simp_all
    have sd: "sint (tx - org) = uint tx - uint org" by (rule sint_diff_small [OF ts os])
    have d0: "0 \<le> uint tx - uint org" using y0 sd by simp
    have d1: "uint tx - uint org < avail" using tu ul by linarith
    have a53: "avail < 2 ^ 53" using small o0 unfolding avail_def by linarith
    have "wrap64 (uint tx - uint org + 1) = uint tx - uint org + 1"
      using d0 d1 a53 by (intro wrap64_id) simp_all
    then have "consumed = uint tx - uint org + 1" using c sd by simp
    then show ?thesis using ne d0 d1 False by (simp add: avail_def)
  qed
qed

lemma channel_keptI:
  assumes laws: "float64_laws fp"
    and rc: "resampleChannel fp (cache @ samples) isr' osr' ws cs = Ok (opcm, consumed)"
    and rates: "0 \<le> isr'" "0 \<le> osr'"
    and small: "uint cs + int (length cache) + int (length samples) < 2 ^ 53"
    and cache: "cache' = drop (nat consumed) (cache @ samples)"
    and ws: "ws' = ws + of_nat (length opcm)"
    and cs: "cs' = cs + word_of_int consumed"
  shows "channel_kept cache ws cs samples opcm consumed cache' ws' cs'"
proof -
  have small': "uint cs + int (length (cache @ samples)) < 2 ^ 53" using small by simp
  from resampleChannel_bounds [OF laws rc rates small']
  have b1: "if opcm = [] then consumed = 0 else 1 \<le> consumed"
    and b2: "consumed \<le> int (length (cache @ samples)) - int (min 16 (length (cache @ samples)))"
    by simp_all
  have nn: "0 \<le> consumed" using b1 by (cases "opcm = []") simp_all
  have len: "min 16 (length (cache @ samples)) \<le> length cache'"
    unfolding cache using b2 nn by (simp only: length_drop)
  have c0: "0 \<le> uint cs" by simp
  have "uint cs + consumed < 2 ^ 64" using small' b2 by simp
  then have ucs: "uint cs' = uint cs + consumed" unfolding cs using nn by (intro uint_add_small)
  have wsw: "ws' = ws + word_of_int (int (length opcm))" unfolding ws by simp
  have uws: "if uint ws + int (length opcm) < 2 ^ 64 then uint ws' = uint ws + int (length opcm)
             else True"
  proof (cases "uint ws + int (length opcm) < 2 ^ 64")
    case True
    then have "uint ws' = uint ws + int (length opcm)" unfolding wsw by (intro uint_add_small) simp
    with True show ?thesis by simp
  next
    case False
    then show ?thesis by simp
  qed
  show ?thesis
    unfolding channel_kept_def
    by (intro conjI nn cache len b1 ws cs ucs uws)
qed

subsubsection \<open>Both channels\<close>

lemma handleRight_None:
  assumes "handleRight fp v opL None = (Ok out, v')"
  shows "v' = v \<and> resampleMerge opL None = Ok out"
  using assms by (simp add: handleRight_def)

lemma handleRight_Some:
  assumes "handleRight fp v opL (Some R) = (Ok out, v')"
  shows "\<exists>opR cr. resampleChannel fp R (isr v) (osr v) (rws v) (rcs v) = Ok (opR, cr) \<and>
           resampleMerge opL (nil_if_empty opR) = Ok out \<and>
           v' = v\<lparr> rws := rws v + of_nat (length opR), rcs := rcs v + word_of_int cr,
                   rcache := (if cr < int (length R) then drop (nat cr) R else rcache v) \<rparr>"
proof (cases "resampleChannel fp R (isr v) (osr v) (rws v) (rcs v)")
  case (Ok p)
  obtain opR cr where p: "p = (opR, cr)" by (cases p)
  show ?thesis
  proof (cases "cr < int (length R)")
    case True
    with assms Ok p show ?thesis
      by (auto simp add: handleRight_def Let_def slice_from_def split: if_splits)
  next
    case False
    with assms Ok p show ?thesis
      by (auto simp add: handleRight_def Let_def)
  qed
qed (use assms in \<open>simp_all add: handleRight_def\<close>)

text \<open>
  With at most 16 samples for the right channel its output is nil, and the left channel is
  merged alone.
\<close>

lemma handleRight_short_right:
  assumes "length R \<le> 16"
  shows "handleRight fp v opL (Some R) =
           (resampleMerge opL None, if R = [] then v else v\<lparr> rcache := R \<rparr>)"
  using assms
  by (simp add: handleRight_def resampleChannel_def slice_from_def nil_if_empty_def)

lemma if_append: "(if xs \<noteq> [] then xs @ ys else ys) = xs @ ys"
  by simp

lemma handleChannels_left:
  assumes "handleChannels fp v L ipR = (Ok out, v')"
  shows "\<exists>opL cl v3. resampleChannel fp (lcache v @ L) (isr v) (osr v) (lws v) (lcs v) = Ok (opL, cl) \<and>
           0 \<le> cl \<and>
           handleRight fp v3 opL (map_option (\<lambda>R. rcache v @ R) ipR) = (Ok out, v') \<and>
           lcache v3 = drop (nat cl) (lcache v @ L) \<and>
           rcache v3 = (if ipR = None then rcache v else []) \<and>
           lws v3 = lws v + of_nat (length opL) \<and> lcs v3 = lcs v + word_of_int cl \<and>
           rws v3 = rws v \<and> rcs v3 = rcs v \<and> isr v3 = isr v \<and> osr v3 = osr v"
proof (cases "resampleChannel fp (lcache v @ L) (isr v) (osr v) (lws v) (lcs v)")
  case (Ok p)
  obtain opL cl where p: "p = (opL, cl)" by (cases p)
  show ?thesis
  proof (cases "cl < int (length (lcache v @ L))")
    case True
    with assms Ok p have nn: "0 \<le> cl"
      by (cases ipR) (auto simp add: handleChannels_def Let_def if_append slice_from_def split: if_splits)
    with assms Ok p True show ?thesis
      by (cases ipR) (fastforce simp add: handleChannels_def Let_def if_append slice_from_def)+
  next
    case False
    then have nn: "0 \<le> cl" by simp
    from False have "drop (nat cl) (lcache v @ L) = []" by simp
    with assms Ok p False nn show ?thesis
      by (cases ipR) (fastforce simp add: handleChannels_def Let_def if_append)+
  qed
qed (use assms in \<open>cases ipR; simp add: handleChannels_def Let_def if_append\<close>)+

lemma Handle_Ok_channels:
  assumes "Handle fp v pcm = (Ok out, v')" and "isr v \<noteq> osr v"
  shows "\<exists>ipL ipR. resampleInitChannel pcm (channels v) 0 = Ok ipL \<and>
           resampleInitChannel pcm (channels v) 1 = Ok ipR \<and>
           handleChannels fp v (the_slice ipL) ipR = (Ok out, v')"
  using assms
  by (auto simp add: Handle_def Let_def split: if_splits result.splits)

lemma resampleInitChannel_None: "resampleInitChannel pcm chans channel = Ok None \<longleftrightarrow> chans \<le> channel"
  by (auto simp add: resampleInitChannel_def split: result.splits)

lemma sdiv_nonpos_divisor:
  assumes "0 \<le> (m::int)" and "c \<le> 0"
  shows "m sdiv c \<le> 0"
proof (cases "c = 0 \<or> m = 0")
  case True
  then show ?thesis by auto
next
  case False
  then have m: "0 < m" and c: "c < 0" using assms by simp_all
  have "0 \<le> m div (- c)" using m c by (simp add: pos_imp_zdiv_nonneg_iff)
  then show ?thesis using m c by (simp add: signed_divide_int_def)
qed

lemma Handle_Ok_positive:
  assumes "Handle fp v pcm = (Ok out, v')" and "isr v \<noteq> osr v"
  shows "0 < channels v"
proof (rule ccontr)
  assume "\<not> 0 < channels v"
  then have c: "channels v \<le> 0" by simp
  have "0 \<le> int (length pcm) sdiv 2" by (simp add: sdiv_nonneg)
  then have small: "int (length pcm) sdiv 2 sdiv channels v < 4"
    using sdiv_nonpos_divisor [OF _ c, of "int (length pcm) sdiv 2"] by simp
  have "fst (Handle fp v pcm) \<noteq> Ok out"
    using assms(2) small by (simp add: Handle_def Let_def)
  with assms(1) show False by simp
qed

lemma Handle_Ok_sides:
  assumes ok: "Handle fp v pcm = (Ok out, v')" and ne: "isr v \<noteq> osr v"
  shows "\<exists>opL cl.
           resampleChannel fp (lcache v @ channelSamples pcm (channels v) 0) (isr v) (osr v)
             (lws v) (lcs v) = Ok (opL, cl) \<and>
           lcache v' = drop (nat cl) (lcache v @ channelSamples pcm (channels v) 0) \<and>
           lws v' = lws v + of_nat (length opL) \<and> lcs v' = lcs v + word_of_int cl \<and>
           (if channels v \<le> 1
            then rcache v' = rcache v \<and> rws v' = rws v \<and> rcs v' = rcs v \<and>
                 resampleMerge opL None = Ok out
            else \<exists>opR cr.
                   resampleChannel fp (rcache v @ channelSamples pcm (channels v) 1) (isr v) (osr v)
                     (rws v) (rcs v) = Ok (opR, cr) \<and>
                   rcache v' = drop (nat cr) (rcache v @ channelSamples pcm (channels v) 1) \<and>
                   rws v' = rws v + of_nat (length opR) \<and> rcs v' = rcs v + word_of_int cr \<and>
                   resampleMerge opL (nil_if_empty opR) = Ok out)"
proof -
  from Handle_Ok_channels [OF assms] obtain ipL ipR where
    l: "resampleInitChannel pcm (channels v) 0 = Ok ipL" and
    r: "resampleInitChannel pcm (channels v) 1 = Ok ipR" and
    hc: "handleChannels fp v (the_slice ipL) ipR = (Ok out, v')"
    by auto
  have pos: "0 < channels v" by (rule Handle_Ok_positive [OF assms])
  have "ipL \<noteq> None"
    using l pos resampleInitChannel_None [of pcm "channels v" 0] by (cases ipL) simp_all
  then obtain Ls where Ls: "ipL = Some Ls" by (cases ipL) simp_all
  have L: "the_slice ipL = channelSamples pcm (channels v) 0"
    using l Ls by (simp add: channelSamples_def the_slice_def)
  from handleChannels_left [OF hc] obtain opL cl v3 where
    rc: "resampleChannel fp (lcache v @ the_slice ipL) (isr v) (osr v) (lws v) (lcs v) = Ok (opL, cl)" and
    hr: "handleRight fp v3 opL (map_option (\<lambda>R. rcache v @ R) ipR) = (Ok out, v')" and
    f: "lcache v3 = drop (nat cl) (lcache v @ the_slice ipL)"
       "rcache v3 = (if ipR = None then rcache v else [])"
       "lws v3 = lws v + of_nat (length opL)" "lcs v3 = lcs v + word_of_int cl"
       "rws v3 = rws v" "rcs v3 = rcs v" "isr v3 = isr v" "osr v3 = osr v"
    by blast
  show ?thesis
  proof (cases ipR)
    case None
    then have le: "channels v \<le> 1"
      using r resampleInitChannel_None [of pcm "channels v" 1] by simp
    from hr None have "v' = v3 \<and> resampleMerge opL None = Ok out"
      by (simp add: handleRight_None)
    with rc f None le show ?thesis unfolding L by auto
  next
    case (Some Rs)
    then have nle: "\<not> channels v \<le> 1"
      using r resampleInitChannel_None [of pcm "channels v" 1] by simp
    have Rs: "channelSamples pcm (channels v) 1 = Rs" using r Some by (simp add: channelSamples_def)
    from hr Some have "handleRight fp v3 opL (Some (rcache v @ Rs)) = (Ok out, v')" by simp
    from handleRight_Some [OF this] obtain opR cr where
      rr: "resampleChannel fp (rcache v @ Rs) (isr v3) (osr v3) (rws v3) (rcs v3) = Ok (opR, cr)" and
      mg: "resampleMerge opL (nil_if_empty opR) = Ok out" and
      v': "v' = v3\<lparr> rws := rws v3 + of_nat (length opR), rcs := rcs v3 + word_of_int cr,
                     rcache := (if cr < int (length (rcache v @ Rs)) then drop (nat cr) (rcache v @ Rs)
                                else rcache v3) \<rparr>"
      by blast
    have rcache': "rcache v' = drop (nat cr) (rcache v @ Rs)"
      using v' f(2) Some by (cases "cr < int (length (rcache v @ Rs))") simp_all
    have left: "lcache v' = drop (nat cl) (lcache v @ the_slice ipL)"
      "lws v' = lws v + of_nat (length opL)" "lcs v' = lcs v + word_of_int cl"
      "rws v' = rws v + of_nat (length opR)" "rcs v' = rcs v + word_of_int cr"
      using f by (simp_all add: v')
    have rr': "resampleChannel fp (rcache v @ Rs) (isr v) (osr v) (rws v) (rcs v) = Ok (opR, cr)"
      using rr f by simp
    show ?thesis
      unfolding L [symmetric] Rs
      using rc left rcache' rr' mg nle by auto
  qed
qed

text \<open>
  Claim C6. After a successful \<open>Handle\<close> with different rates the cache of a channel does
  not hold fewer than 16 samples: it holds at least 16 of the old cache followed by the new
  samples, or all of them when there are fewer. It is what the channel did not consume; the
  counters of written and consumed samples advance by the two amounts and so never decrease
  (the written one as long as it fits in 64 bits); a channel consumes at least one sample when
  it writes one and none when it writes none. With one channel the right cache and counters
  are untouched and the output is the left output; with two, an empty right output is merged
  as no channel. The rates are not negative and the consumed counters, the caches and the
  input stay below \<open>2 ^ 53\<close>, where \<open>float64\<close> is exact on integers.
\<close>

theorem Handle_keeps_at_least_16:
  assumes laws: "float64_laws fp"
    and ok: "Handle fp v pcm = (Ok out, v')" and ne: "isr v \<noteq> osr v"
    and rates: "0 \<le> isr v" "0 \<le> osr v"
    and smallL: "uint (lcs v) + int (length (lcache v))
                   + int (length (channelSamples pcm (channels v) 0)) < 2 ^ 53"
    and smallR: "uint (rcs v) + int (length (rcache v))
                   + int (length (channelSamples pcm (channels v) 1)) < 2 ^ 53"
  shows "\<exists>opL cl.
           channel_kept (lcache v) (lws v) (lcs v) (channelSamples pcm (channels v) 0) opL cl
             (lcache v') (lws v') (lcs v') \<and>
           (if channels v \<le> 1
            then rcache v' = rcache v \<and> rws v' = rws v \<and> rcs v' = rcs v \<and>
                 resampleMerge opL None = Ok out
            else \<exists>opR cr.
                   channel_kept (rcache v) (rws v) (rcs v) (channelSamples pcm (channels v) 1) opR cr
                     (rcache v') (rws v') (rcs v') \<and>
                   resampleMerge opL (nil_if_empty opR) = Ok out)"
proof -
  from Handle_Ok_sides [OF ok ne] obtain opL cl where
    rc: "resampleChannel fp (lcache v @ channelSamples pcm (channels v) 0) (isr v) (osr v)
             (lws v) (lcs v) = Ok (opL, cl)" and
    lc: "lcache v' = drop (nat cl) (lcache v @ channelSamples pcm (channels v) 0)" and
    lw: "lws v' = lws v + of_nat (length opL)" and lcs: "lcs v' = lcs v + word_of_int cl" and
    right: "if channels v \<le> 1
            then rcache v' = rcache v \<and> rws v' = rws v \<and> rcs v' = rcs v \<and>
                 resampleMerge opL None = Ok out
            else \<exists>opR cr.
                   resampleChannel fp (rcache v @ channelSamples pcm (channels v) 1) (isr v) (osr v)
                     (rws v) (rcs v) = Ok (opR, cr) \<and>
                   rcache v' = drop (nat cr) (rcache v @ channelSamples pcm (channels v) 1) \<and>
                   rws v' = rws v + of_nat (length opR) \<and> rcs v' = rcs v + word_of_int cr \<and>
                   resampleMerge opL (nil_if_empty opR) = Ok out"
    by blast
  have A: "channel_kept (lcache v) (lws v) (lcs v) (channelSamples pcm (channels v) 0) opL cl
             (lcache v') (lws v') (lcs v')"
    by (rule channel_keptI [OF laws rc rates smallL lc lw lcs])
  have B: "if channels v \<le> 1
            then rcache v' = rcache v \<and> rws v' = rws v \<and> rcs v' = rcs v \<and>
                 resampleMerge opL None = Ok out
            else \<exists>opR cr.
                   channel_kept (rcache v) (rws v) (rcs v) (channelSamples pcm (channels v) 1) opR cr
                     (rcache v') (rws v') (rcs v') \<and>
                   resampleMerge opL (nil_if_empty opR) = Ok out"
  proof (cases "channels v \<le> 1")
    case True
    with right show ?thesis by simp
  next
    case False
    with right obtain opR cr where
      rr: "resampleChannel fp (rcache v @ channelSamples pcm (channels v) 1) (isr v) (osr v)
                     (rws v) (rcs v) = Ok (opR, cr)" and
      rc': "rcache v' = drop (nat cr) (rcache v @ channelSamples pcm (channels v) 1)" and
      rw: "rws v' = rws v + of_nat (length opR)" and rcs: "rcs v' = rcs v + word_of_int cr" and
      mg: "resampleMerge opL (nil_if_empty opR) = Ok out"
      by auto
    have "channel_kept (rcache v) (rws v) (rcs v) (channelSamples pcm (channels v) 1) opR cr
                     (rcache v') (rws v') (rcs v')"
      by (rule channel_keptI [OF laws rr rates smallR rc' rw rcs])
    with mg False show ?thesis by auto
  qed
  from A B show ?thesis by blast
qed

subsubsection \<open>Seventeen samples\<close>

text \<open>
  Seventeen samples on one channel, into a fresh resampler from 16000 to 24000. The loop makes
  two rounds, at 0 and at the \<open>float64\<close> nearest to 2/3, both on the first four samples; it
  writes two samples and consumes one, and the cache holds the other sixteen. The arithmetic is
  evaluated one operation at a time.
\<close>

lemma fl_pos: "0 < q \<Longrightarrow> fl q = of_int (round_even (q / pow2 (rexp q - 52))) * pow2 (rexp q - 52)"
  by (simp add: fl_def Let_def)

lemma fl_neg: "q < 0 \<Longrightarrow> fl q = - (of_int (round_even (- q / pow2 (rexp (- q) - 52))) * pow2 (rexp (- q) - 52))"
  by (simp add: fl_def Let_def)

lemma round_even_eval:
  "round_even q = (if q - of_int \<lfloor>q\<rfloor> < 1 / 2 then \<lfloor>q\<rfloor>
                   else if 1 / 2 < q - of_int \<lfloor>q\<rfloor> then \<lfloor>q\<rfloor> + 1
                   else if even \<lfloor>q\<rfloor> then \<lfloor>q\<rfloor> else \<lfloor>q\<rfloor> + 1)"
  by (simp add: round_even_def Let_def)

lemma rexp_eval:
  "rexp a = (if 1 \<le> a then rexp_up a
             else if pow2 (- rexp_up (1 / a)) \<le> a then - rexp_up (1 / a) else - rexp_up (1 / a) - 1)"
  by (simp add: rexp_def Let_def)

lemma floor_rat_numeral: "\<lfloor>(numeral a :: rat) / numeral b\<rfloor> = numeral a div numeral b"
  using floor_divide_of_int_eq [of "numeral a" "numeral b", where ?'a = rat] by simp

lemmas fl_eval = fl_zero fl_pos fl_neg rexp_eval rexp_up.simps pow2_def round_even_eval
  floor_rat_numeral

lemmas b64 = binary64_sel fl_eval trunc0_def

lemma spline_lu_first: "spline_lu binary64 [0, 1, 2, 3] = (1, 1, 1, 1 / 2, 1 / 2, 1 / 2, 1 / 2)"
  by (simp add: spline_lu_def Let_def b64)

lemma spline_c1_first: "spline_c1 binary64 [0, 10, 40, 90] 1 1 = 60"
  by (simp add: spline_c1_def Let_def b64)

lemma spline_c2_first: "spline_c2 binary64 [0, 10, 40, 90] 1 1 = 60"
  by (simp add: spline_c2_def Let_def b64)

lemma spline_m1_first: "spline_m1 binary64 60 60 (1 / 2) (1 / 2) = 24"
  by (simp add: spline_m1_def b64)

lemma spline_m2_first: "spline_m2 binary64 60 60 (1 / 2) (1 / 2) = 24"
  by (simp add: spline_m2_def b64)

lemma spline_z0_at_0: "spline_z0 binary64 24 1 0 1 0 10 0 = 0"
  by (simp add: spline_z0_def Let_def b64)

lemma spline_z0_at_two_thirds: "spline_z0 binary64 24 1 0 1 0 10 (6004799503160661 / 9007199254740992) =
               2918999758480877 / 562949953421312"
  by (simp add: spline_z0_def Let_def b64)

lemma spline_at_0: "spline binary64 [0, 1, 2, 3] [0, 10, 40, 90] [0] [0] = Inr [0]"
  by (simp add: spline_def spline_lu_first spline_c1_first spline_c2_first spline_m1_first spline_m2_first spline_z0_at_0 Let_def binary64_sel)

lemma spline_at_two_thirds: "spline binary64 [0, 1, 2, 3] [0, 10, 40, 90] [6004799503160661 / 9007199254740992] [0] =
               Inr [2918999758480877 / 562949953421312]"
  by (simp add: spline_def spline_lu_first spline_c1_first spline_c2_first spline_m1_first spline_m2_first spline_z0_at_two_thirds Let_def binary64_sel)

lemma resampleStep_at_0: "resampleStep binary64 samples17 0 0 = Ok (0, 1)"
  by (simp add: resampleStep_def samples17_def index_def spline_at_0 Let_def b64 wrap64_def)

lemma resampleStep_at_two_thirds: "resampleStep binary64 samples17 0 (6004799503160661 / 9007199254740992) = Ok (5, 1)"
  by (simp add: resampleStep_def samples17_def index_def spline_at_two_thirds Let_def b64 wrap64_def)

lemma resampleLoop_samples17:
  "resampleLoop binary64 samples17 0 (6004799503160661 / 9007199254740992) 1 0 [] 0 =
     Some (Ok ([0, 5], 1))"
  by (simp add: resampleLoop.simps resampleStep_at_0 resampleStep_at_two_thirds b64)

lemma samples17_length: "length samples17 = 17"
  by (simp add: samples17_def)

lemma resampleChannel_samples17: "resampleChannel binary64 samples17 16000 24000 0 0 = Ok ([0, 5], 1)"
  by (simp add: resampleChannel_def resampleLoop_samples17 Let_def b64 samples17_length)

lemma initLoop_pcm17: "initLoop pcm17 1 0 [] = Ok samples17"
  by (simp add: initLoop.simps pcm17_def samples17_def index_def)

lemma Handle_pcm17:
  "Handle binary64 example_resampler pcm17 =
     (Ok [0, 0, 5, 0],
      example_resampler\<lparr> lcache := drop 1 samples17, lws := 2, lcs := 1 \<rparr>)"
proof -
  have len: "length pcm17 = 34" by (simp add: pcm17_def)
  have i0: "resampleInitChannel pcm17 1 0 = Ok (Some samples17)"
    by (simp add: resampleInitChannel_def initLoop_pcm17)
  have i1: "resampleInitChannel pcm17 1 1 = Ok None"
    by (simp add: resampleInitChannel_def)
  show ?thesis
    by (simp add: Handle_def example_resampler_def len i0 i1 the_slice_def Let_def
        handleChannels_def resampleChannel_samples17 samples17_length handleRight_def slice_from_def
        signed_divide_int_def smod_int_alt_def lo_byte_def hi_byte_def)
qed

lemma channelSamples_pcm17:
  "channelSamples pcm17 1 0 = samples17" "channelSamples pcm17 1 1 = []"
  by (simp_all add: channelSamples_def resampleInitChannel_def initLoop_pcm17)

lemma channel_kept_samples17: "channel_kept [] 0 0 samples17 [0, 5] 1 (drop 1 samples17) 2 1"
  by (simp add: channel_kept_def samples17_def)

theorem Handle_keeps_at_least_16_witness:
  "float64_laws binary64 \<and>
   Handle binary64 example_resampler pcm17 =
     (Ok [0, 0, 5, 0], example_resampler\<lparr> lcache := drop 1 samples17, lws := 2, lcs := 1 \<rparr>) \<and>
   isr example_resampler \<noteq> osr example_resampler \<and>
   0 \<le> isr example_resampler \<and> 0 \<le> osr example_resampler \<and>
   uint (lcs example_resampler) + int (length (lcache example_resampler))
     + int (length (channelSamples pcm17 (channels example_resampler) 0)) < 2 ^ 53 \<and>
   uint (rcs example_resampler) + int (length (rcache example_resampler))
     + int (length (channelSamples pcm17 (channels example_resampler) 1)) < 2 ^ 53 \<and>
   (\<exists>opL cl. channel_kept [] 0 0 samples17 opL cl (drop 1 samples17) 2 1 \<and>
              resampleMerge opL None = Ok [0, 0, 5, 0])"
  using Handle_keeps_at_least_16 [OF binary64_laws Handle_pcm17] binary64_laws Handle_pcm17
  by (simp add: example_resampler_def channelSamples_pcm17 samples17_length)

subsubsection \<open>Sixteen samples\<close>

text \<open>
  Sixteen samples on one channel, into a fresh resampler from 16000 to 24000: no output, and
  the cache holds all sixteen.
\<close>

lemma initLoop_pcm16: "initLoop pcm16 1 0 [] = Ok cache16"
  by (simp add: initLoop.simps pcm16_def cache16_def index_def)

lemma Handle_pcm16:
  "Handle binary64 example_resampler pcm16 = (Ok [], example_resampler\<lparr> lcache := cache16 \<rparr>)"
proof -
  have len: "length pcm16 = 32" by (simp add: pcm16_def)
  have l16: "length cache16 = 16" by (simp add: cache16_def)
  have ne: "cache16 \<noteq> []" by (simp add: cache16_def)
  have i0: "resampleInitChannel pcm16 1 0 = Ok (Some cache16)"
    by (simp add: resampleInitChannel_def initLoop_pcm16)
  have i1: "resampleInitChannel pcm16 1 1 = Ok None"
    by (simp add: resampleInitChannel_def)
  show ?thesis
    by (simp add: Handle_def example_resampler_def len i0 i1 the_slice_def Let_def
        handleChannels_def resampleChannel_def l16 ne handleRight_def slice_from_def
        signed_divide_int_def smod_int_alt_def)
qed

theorem Handle_cache_of_16_counterexample:
  "fst (Handle binary64 example_resampler pcm16) = Ok [] \<and>
   length (lcache (snd (Handle binary64 example_resampler pcm16))) = 16"
  by (simp add: Handle_pcm16 cache16_def)

section \<open>Round trip of upstream server events\<close>

text \<open>
  Claim C9. \<open>MarshalServerEvent\<close> writes every one of its 29 variants with its type tag and
  its event id, fresh if the event had none. \<open>UnmarshalServerEvent\<close> reads the bytes back as
  the event that the marshalling left, for 28 of them; it has no case for \<open>response.cancelled\<close>
  and answers \<open>unknown server event type\<close> there.
\<close>

theorem server_event_round_trip:
  "fst (MarshalServerEvent uid e) =
     Inr (JsonObject (marshalTag (kind e)) (if EventID e = [] then uid else EventID e) (payload e)) \<and>
   UnmarshalServerEvent
     (JsonObject (marshalTag (kind e)) (if EventID e = [] then uid else EventID e) (payload e)) =
     (if kind e = ResponseCancelledEvent
      then Inl (UnknownServerEventType ServerEventTypeResponseCancelled)
      else Inr (snd (MarshalServerEvent uid e)))"
proof (cases e)
  case (fields k i t p)
  show ?thesis
    unfolding fields
    by (cases k)
      (simp_all add: MarshalServerEvent_def SetBaseEventType_def UnmarshalServerEvent_def
        unmarshalCases_def ServerEventType_defs Let_def)
qed

theorem server_event_round_trip_witness:
  "fst (MarshalServerEvent ''0192f0c1a2b37c4d8e5f6a7b8c9d0e1f''
          \<lparr> kind = ResponseCancelledEvent, EventID = [], Type = [], payload = () \<rparr>) =
     Inr (JsonObject ''response.cancelled'' ''0192f0c1a2b37c4d8e5f6a7b8c9d0e1f'' ()) \<and>
   UnmarshalServerEvent (JsonObject ''response.cancelled'' ''0192f0c1a2b37c4d8e5f6a7b8c9d0e1f'' ()) =
     Inl (UnknownServerEventType ''response.cancelled'')"
  using server_event_round_trip [of "''0192f0c1a2b37c4d8e5f6a7b8c9d0e1f''"
      "\<lparr> kind = ResponseCancelledEvent, EventID = [], Type = [], payload = () \<rparr>"]
  by (simp add: ServerEventTypeResponseCancelled_def)

section \<open>Decoding a tool choice\<close>

lemma jsonUnmarshalStruct_cases:
  "jsonUnmarshalStruct dec data v =
     (if checkValid data \<and> topLevel data = Some CHR ''{'' then dec data v
      else if checkValid data \<and> topLevel data = Some CHR ''n'' then (None, v)
      else if checkValid data \<and> topLevel data \<noteq> None then (Some JsonUnmarshalTypeError, v)
      else (Some JsonSyntaxError, v))"
proof (cases "dropWhile isSpace data")
  case Nil
  show ?thesis unfolding jsonUnmarshalStruct_def topLevel_def Nil by simp
next
  case (Cons c cs)
  show ?thesis unfolding jsonUnmarshalStruct_def topLevel_def Cons by simp
qed

text \<open>
  Claim C10. On an input of at least one byte, other than the one byte \<open>"\<close>,
  \<open>UnmarshalJSON\<close> returns nil. A valid JSON object that decodes without an error is stored in
  \<open>Function\<close> and \<open>String\<close> is untouched; the valid JSON \<open>null\<close> changes nothing; every other
  input (malformed JSON, another JSON value, an object whose decoding fails) is stored in
  \<open>String\<close> without at most one leading and one trailing double quote, and \<open>Function\<close> is
  reset.
\<close>

theorem UnmarshalJSON_outcome:
  assumes "data \<noteq> []" and "data \<noteq> [CHR 0x22]"
  shows "fst (UnmarshalJSON dec m data) = Ok None \<and>
         snd (UnmarshalJSON dec m data) =
           (if checkValid data \<and> topLevel data = Some CHR ''{'' then
              (case dec data (Function m) of
                 (None, f) \<Rightarrow> m\<lparr> Function := f \<rparr>
               | (Some err, f) \<Rightarrow> m\<lparr> String := strip_quotes data, Function := zeroToolChoice \<rparr>)
            else if checkValid data \<and> topLevel data = Some CHR ''n'' then m
            else m\<lparr> String := strip_quotes data, Function := zeroToolChoice \<rparr>)"
proof -
  obtain c cs where d: "data = c # cs" using assms(1) by (cases data) simp_all
  have fail: "\<And>err f. jsonUnmarshalStruct dec data (Function m) = (Some err, f) \<Longrightarrow>
     UnmarshalJSON dec m data = (Ok None, m\<lparr> String := strip_quotes data, Function := zeroToolChoice \<rparr>)"
    using assms(2) by (simp add: UnmarshalJSON_def strip_quotes_def d Let_def)
  have ok: "\<And>f. jsonUnmarshalStruct dec data (Function m) = (None, f) \<Longrightarrow>
     UnmarshalJSON dec m data = (Ok None, m\<lparr> Function := f \<rparr>)"
    by (simp add: UnmarshalJSON_def)
  show ?thesis
  proof (cases "jsonUnmarshalStruct dec data (Function m)")
    case (Pair e f)
    show ?thesis
    proof (cases e)
      case None
      with Pair ok [of f] show ?thesis
        by (auto simp add: jsonUnmarshalStruct_cases split: if_splits prod.splits)
    next
      case (Some err)
      with Pair fail [of err f] show ?thesis
        by (auto simp add: jsonUnmarshalStruct_cases split: if_splits prod.splits)
    qed
  qed
qed

lemma checkValid_null: "checkValid ''null''"
  by (simp add: checkValid_def scanEof_def scanReset_def scanByte_def stateBeginValue_def isSpace_def
      expect_def stateEndValue_def stateEndTop_def)

lemma checkValid_quoted: "checkValid [CHR 0x22, CHR ''a'', CHR ''u'', CHR ''t'', CHR ''o'', CHR 0x22]"
  by (simp add: checkValid_def scanEof_def scanReset_def scanByte_def stateBeginValue_def isSpace_def
      expect_def stateEndValue_def stateEndTop_def)

lemma checkValid_lone_quote: "\<not> checkValid [CHR 0x22]"
  by (simp add: checkValid_def scanEof_def scanReset_def scanByte_def stateBeginValue_def isSpace_def
      expect_def stateEndValue_def stateEndTop_def scanFail_def)

theorem UnmarshalJSON_outcome_witness:
  "[CHR 0x22, CHR ''a'', CHR ''u'', CHR ''t'', CHR ''o'', CHR 0x22] \<noteq> [] \<and>
   [CHR 0x22, CHR ''a'', CHR ''u'', CHR ''t'', CHR ''o'', CHR 0x22] \<noteq> [CHR 0x22] \<and>
   UnmarshalJSON reject_object \<lparr> String = [], Function = zeroToolChoice \<rparr>
     [CHR 0x22, CHR ''a'', CHR ''u'', CHR ''t'', CHR ''o'', CHR 0x22] =
   (Ok None, \<lparr> String = ''auto'', Function = zeroToolChoice \<rparr>)"
  using UnmarshalJSON_outcome [of "[CHR 0x22, CHR ''a'', CHR ''u'', CHR ''t'', CHR ''o'', CHR 0x22]" reject_object
      "\<lparr> String = [], Function = zeroToolChoice \<rparr>"]
  by (simp add: checkValid_quoted topLevel_def isSpace_def strip_quotes_def prod_eq_iff)

text \<open>
  The input \<open>null\<close> is not an object, and it is not stored in \<open>String\<close>: the receiver keeps
  the string and the function it had.
\<close>

theorem UnmarshalJSON_null_counterexample:
  "UnmarshalJSON reject_object example_choice ''null'' = (Ok None, example_choice)"
  by (simp add: UnmarshalJSON_def jsonUnmarshalStruct_def checkValid_null isSpace_def example_choice_def)

text \<open>
  The one byte \<open>"\<close> is not valid JSON; after the leading quote is taken off nothing is
  left, and the test of the last byte is out of range.
\<close>

lemma UnmarshalJSON_lone_quote_panics:
  "UnmarshalJSON dec m [CHR 0x22] = (Panic IndexOutOfRange, m)"
  by (simp add: UnmarshalJSON_def jsonUnmarshalStruct_def checkValid_lone_quote)

end
